theory Spec2Isabelle
  imports Main
begin

section \<open>Python strings\<close>

text \<open>
  A Python \<open>str\<close> is a sequence of code points; the model is \<open>string\<close>, which
  keeps the code points below 256. \<open>isspace\<close>, \<open>strip\<close> and \<open>lower\<close> are
  \<open>str.isspace\<close>, \<open>str.strip()\<close> and \<open>str.lower()\<close> on that range.
\<close>

definition isspace :: "char \<Rightarrow> bool" where
  "isspace c = (of_char c \<in> set [9, 10, 11, 12, 13, 28, 29, 30, 31, 32, 133, 160 :: nat])"

definition strip :: "string \<Rightarrow> string" where
  "strip s = rev (dropWhile isspace (rev (dropWhile isspace s)))"

definition lower_char :: "char \<Rightarrow> char" where
  "lower_char c =
     (let n = of_char c :: nat
      in if (65 \<le> n \<and> n \<le> 90) \<or> (192 \<le> n \<and> n \<le> 222 \<and> n \<noteq> 215)
         then char_of (n + 32) else c)"

definition lower :: "string \<Rightarrow> string" where
  "lower s = map lower_char s"

text \<open>\<open>sep.join(xs)\<close>.\<close>

fun join :: "string \<Rightarrow> string list \<Rightarrow> string" where
  "join sep [] = []"
| "join sep [x] = x"
| "join sep (x # y # ys) = x @ sep @ join sep (y # ys)"

text \<open>\<open>s.startswith(p)\<close> and the substring test \<open>sub in s\<close>.\<close>

fun starts_with :: "string \<Rightarrow> string \<Rightarrow> bool" where
  "starts_with s [] = True"
| "starts_with [] (p # ps) = False"
| "starts_with (c # cs) (p # ps) = (c = p \<and> starts_with cs ps)"

fun str_in :: "string \<Rightarrow> string \<Rightarrow> bool" where
  "str_in sub [] = (sub = [])"
| "str_in sub (c # cs) = (starts_with (c # cs) sub \<or> str_in sub cs)"

section \<open>The process environment\<close>

text \<open>
  \<open>os.environ\<close> is a map from variable names to strings. \<open>os.getenv(name)\<close> is
  the lookup, \<open>None\<close> for an absent variable; \<open>os.getenv(name, default)\<close> replaces
  only an absent variable by the default; \<open>os.environ[name]\<close> raises
  \<open>KeyError\<close> for an absent variable.
\<close>

type_synonym env = "string \<rightharpoonup> string"

datatype py_exception =
    KeyboardInterrupt
  | SystemExit string
  | GeneratorExit string
  | UnicodeDecodeError string
  | UnicodeError string
  | RuntimeError string
  | KeyError string
  | EOFError string
  | IndexError string
  | OSError string
  | ValueError string
  | OtherException string

text \<open>
  A value names the class of the exception object, and its argument is the text
  \<open>str(e)\<close>. \<open>KeyboardInterrupt\<close>, \<open>SystemExit\<close> and \<open>GeneratorExit\<close> derive
  from \<open>BaseException\<close> only; every other class derives from \<open>Exception\<close>, which is
  what \<open>except Exception\<close> catches. \<open>UnicodeDecodeError\<close> is a subclass of
  \<open>UnicodeError\<close>, so \<open>except UnicodeDecodeError\<close> does not catch a plain
  \<open>UnicodeError\<close>.
\<close>

fun str_of :: "py_exception \<Rightarrow> string" where
  "str_of KeyboardInterrupt = []"
| "str_of (SystemExit t) = t"
| "str_of (GeneratorExit t) = t"
| "str_of (UnicodeDecodeError t) = t"
| "str_of (UnicodeError t) = t"
| "str_of (RuntimeError t) = t"
| "str_of (KeyError t) = t"
| "str_of (EOFError t) = t"
| "str_of (IndexError t) = t"
| "str_of (OSError t) = t"
| "str_of (ValueError t) = t"
| "str_of (OtherException t) = t"

fun is_exception :: "py_exception \<Rightarrow> bool" where
  "is_exception KeyboardInterrupt = False"
| "is_exception (SystemExit t) = False"
| "is_exception (GeneratorExit t) = False"
| "is_exception ex = True"

definition getenv :: "env \<Rightarrow> string \<Rightarrow> string option" where
  "getenv e name = e name"

definition getenv_default :: "env \<Rightarrow> string \<Rightarrow> string \<Rightarrow> string" where
  "getenv_default e name d = (case e name of None \<Rightarrow> d | Some v \<Rightarrow> v)"

definition environ :: "env \<Rightarrow> string \<Rightarrow> py_exception + string" where
  "environ e name =
     (case e name of
        None \<Rightarrow> Inl (KeyError ([CHR 0x27] @ name @ [CHR 0x27]))
      | Some v \<Rightarrow> Inr v)"

text \<open>Truth value of an optional string: \<open>None\<close> and the empty string are falsy.\<close>

definition truthy :: "string option \<Rightarrow> bool" where
  "truthy v = (case v of None \<Rightarrow> False | Some s \<Rightarrow> s \<noteq> [])"

text \<open>\<open>v or d\<close> for an optional string \<open>v\<close> and a string \<open>d\<close>.\<close>

definition or_else :: "string option \<Rightarrow> string \<Rightarrow> string" where
  "or_else v d = (case v of None \<Rightarrow> d | Some s \<Rightarrow> if s = [] then d else s)"

section \<open>The configuration loader\<close>

text \<open>
  \<open>load_dotenv\<close> belongs to the python-dotenv package, so it is a parameter: called
  with the path, the encoding (\<open>None\<close> when the keyword is not passed) and the
  environment, it either raises or returns, leaving an updated environment. An attempt
  that raises is followed by the next attempt on the same environment.
\<close>

type_synonym dotenv = "string \<Rightarrow> string option \<Rightarrow> env \<Rightarrow> py_exception + env"

text \<open>
  What python-dotenv does when there is no file at the path: it parses an empty stream,
  sets no variable and returns without raising, whatever the encoding.
\<close>

definition load_nothing :: dotenv where
  "load_nothing env_path encoding e = Inr e"

definition encodings :: "string option list" where
  "encodings = [None, Some ''utf-8-sig'', Some ''utf-16'', Some ''utf-16-le'', Some ''utf-16-be'']"

text \<open>
  The two ways \<open>load_env_with_fallbacks\<close> fails: its own \<open>RuntimeError\<close> after the
  loop, or an exception of \<open>load_dotenv\<close> that the \<open>except UnicodeDecodeError\<close>
  clause does not catch.
\<close>

datatype load_failure = Unreadable string | Propagated py_exception

fun raised :: "load_failure \<Rightarrow> py_exception" where
  "raised (Unreadable msg) = RuntimeError msg"
| "raised (Propagated ex) = ex"

fun is_decode_error :: "py_exception + env \<Rightarrow> bool" where
  "is_decode_error (Inl (UnicodeDecodeError t)) = True"
| "is_decode_error r = False"

definition unreadable_message :: "string \<Rightarrow> string" where
  "unreadable_message env_path =
     ''Unable to read .env file at '' @ env_path @ ''. Please save it as UTF-8.''"

fun try_encodings :: "dotenv \<Rightarrow> string \<Rightarrow> env \<Rightarrow> string option list \<Rightarrow> load_failure + env" where
  "try_encodings load_dotenv env_path e [] = Inl (Unreadable (unreadable_message env_path))"
| "try_encodings load_dotenv env_path e (encoding # rest) =
     (case load_dotenv env_path encoding e of
        Inr e' \<Rightarrow> Inr e'
      | Inl ex \<Rightarrow>
          (case ex of
             UnicodeDecodeError t \<Rightarrow> try_encodings load_dotenv env_path e rest
           | _ \<Rightarrow> Inl (Propagated ex)))"

definition load_env_with_fallbacks :: "dotenv \<Rightarrow> string \<Rightarrow> env \<Rightarrow> load_failure + env" where
  "load_env_with_fallbacks load_dotenv env_path e =
     try_encodings load_dotenv env_path e encodings"

text \<open>The module-level check of the required variables, after the load.\<close>

definition missing_vars :: "string list \<Rightarrow> env \<Rightarrow> string list" where
  "missing_vars required_vars e = filter (\<lambda>name. \<not> truthy (getenv e name)) required_vars"

definition missing_message :: "string list \<Rightarrow> string \<Rightarrow> string" where
  "missing_message missing env_file =
     ''Missing required environment variable(s): '' @ join '', '' missing @ ''. ''
       @ ''Expected .env at: '' @ env_file"

definition load_config :: "dotenv \<Rightarrow> string list \<Rightarrow> string \<Rightarrow> env \<Rightarrow> py_exception + env" where
  "load_config load_dotenv required_vars env_file e =
     (case load_env_with_fallbacks load_dotenv env_file e of
        Inl f \<Rightarrow> Inl (raised f)
      | Inr e' \<Rightarrow>
          (let missing = missing_vars required_vars e'
           in if missing \<noteq> [] then Inl (RuntimeError (missing_message missing env_file))
              else Inr e'))"

definition provisioner_required_vars :: "string list" where
  "provisioner_required_vars = [''AZURE_AI_PROJECT_ENDPOINT'', ''AGENT_NAME'']"

definition chat_required_vars :: "string list" where
  "chat_required_vars = [''AZURE_AI_PROJECT_ENDPOINT'', ''AZURE_OPENAI_ENDPOINT'', ''AGENT_NAME'']"

section \<open>Remote calls and the result of a run\<close>

record agent_definition =
  model :: string
  instructions :: string

datatype role = System | User | Assistant

record message =
  role :: role
  content :: string

datatype remote_call =
    Create_version string agent_definition
  | Get_agent string
  | Chat_completion string "message list"

datatype written = Printed string | Prompted string

datatype status = Exit nat | Uncaught py_exception

record run =
  remote_calls :: "remote_call list"
  stdout :: "written list"
  status :: status
  client_closed :: bool

definition aborted :: "py_exception \<Rightarrow> run" where
  "aborted ex = \<lparr>remote_calls = [], stdout = [], status = Uncaught ex, client_closed = False\<rparr>"

section \<open>The provisioner\<close>

text \<open>
  \<open>trail_guide_agent.py\<close>, executed as a module. \<open>prompt_file\<close> is the result of
  opening and reading the instruction file. \<open>project_client\<close> stands for lines 43 to
  46, the construction of \<open>DefaultAzureCredential()\<close> and then of
  \<open>AIProjectClient\<close> for the endpoint: it raises or it does not. The remote
  \<open>create_version\<close> call raises or returns the created agent.
\<close>

type_synonym constructor = "string \<Rightarrow> py_exception option"

record created_agent =
  agent_id :: string
  agent_name :: string
  agent_version :: string

type_synonym create_version_api = "string \<Rightarrow> agent_definition \<Rightarrow> py_exception + created_agent"

definition default_model :: string where
  "default_model = ''gpt-4.1''"

definition created_message :: "created_agent \<Rightarrow> string" where
  "created_message agent =
     ''Agent created (id: '' @ agent_id agent @ '', name: '' @ agent_name agent
       @ '', version: '' @ agent_version agent @ '')''"

definition provisioner ::
  "dotenv \<Rightarrow> constructor \<Rightarrow> create_version_api \<Rightarrow> string \<Rightarrow> py_exception + string \<Rightarrow> env
     \<Rightarrow> run" where
  "provisioner load_dotenv project_client create_version env_file prompt_file e =
     (case load_config load_dotenv provisioner_required_vars env_file e of
        Inl ex \<Rightarrow> aborted ex
      | Inr e' \<Rightarrow>
          (case prompt_file of
             Inl ex \<Rightarrow> aborted ex
           | Inr text \<Rightarrow>
               (let instr = strip text
                in case environ e' ''AZURE_AI_PROJECT_ENDPOINT'' of
                     Inl ex \<Rightarrow> aborted ex
                   | Inr endpoint \<Rightarrow>
                       (case project_client endpoint of
                          Some ex \<Rightarrow> aborted ex
                        | None \<Rightarrow>
                            (case environ e' ''AGENT_NAME'' of
                               Inl ex \<Rightarrow> aborted ex
                             | Inr name \<Rightarrow>
                                 (let d = \<lparr>model = getenv_default e' ''MODEL_NAME'' default_model,
                                           instructions = instr\<rparr>
                                  in case create_version name d of
                                       Inl ex \<Rightarrow>
                                         \<lparr>remote_calls = [Create_version name d], stdout = [],
                                          status = Uncaught ex, client_closed = False\<rparr>
                                     | Inr agent \<Rightarrow>
                                         \<lparr>remote_calls = [Create_version name d],
                                          stdout = [Printed (created_message agent)],
                                          status = Exit 0, client_closed = False\<rparr>))))))"

section \<open>The chat client\<close>

text \<open>
  The latest version of the agent as \<open>project_client.agents.get\<close> returns it, and
  the effective model name of lines 60 to 65:
  \<open>os.getenv("MODEL_DEPLOYMENT") or os.getenv("AZURE_OPENAI_DEPLOYMENT") or
  os.getenv("MODEL_NAME") or definition.model\<close>.
\<close>

record agent_version_info =
  version :: string
  defn :: agent_definition

type_synonym get_agent_api = "string \<Rightarrow> py_exception + agent_version_info"

definition model_name :: "env \<Rightarrow> agent_definition \<Rightarrow> string" where
  "model_name e d =
     or_else (getenv e ''MODEL_DEPLOYMENT'')
       (or_else (getenv e ''AZURE_OPENAI_DEPLOYMENT'')
          (or_else (getenv e ''MODEL_NAME'') (model d)))"

text \<open>
  The chat-completion call is a parameter: it raises, or returns a response, of which
  the model keeps the \<open>message.content\<close> of each choice (\<open>None\<close> when absent).
  \<open>input("You: ")\<close> returns a line or raises; on an exhausted standard input it
  raises \<open>EOFError\<close>.
\<close>

datatype chat_result = Response "string option list" | Call_raises py_exception

type_synonym chat_api = "string \<Rightarrow> message list \<Rightarrow> chat_result"

datatype input_event = Line string | Input_raises py_exception

record session =
  transcript :: "message list"
  calls :: "remote_call list"
  out :: "written list"

datatype turn_end = Continue | Break | Raise py_exception

definition exit_words :: "string list" where
  "exit_words = [''exit'', ''quit'', ''q'']"

definition farewell :: string where
  "farewell = CHR 0x0A # ''Ending session. Goodbye!''"

definition interrupted_farewell :: string where
  "interrupted_farewell = CHR 0x0A # CHR 0x0A # ''Session interrupted. Goodbye!''"

definition emit :: "written list \<Rightarrow> session \<Rightarrow> session" where
  "emit xs s = s\<lparr>out := out s @ xs\<rparr>"

text \<open>The body of the \<open>while True\<close> loop after \<open>input\<close> has returned \<open>raw\<close>.\<close>

definition turn :: "chat_api \<Rightarrow> string \<Rightarrow> string \<Rightarrow> session \<Rightarrow> turn_end \<times> session" where
  "turn chat m raw s =
     (let user_input = strip raw
      in if user_input = [] then (Continue, s)
         else if lower user_input \<in> set exit_words then (Break, emit [Printed farewell] s)
         else
           (let messages = transcript s @ [\<lparr>role = User, content = user_input\<rparr>];
                s1 = s\<lparr>transcript := messages, calls := calls s @ [Chat_completion m messages]\<rparr>
            in case chat m messages of
                 Call_raises ex \<Rightarrow> (Raise ex, s1)
               | Response choices \<Rightarrow>
                   (case choices of
                      [] \<Rightarrow> (Raise (IndexError ''list index out of range''), s1)
                    | c # _ \<Rightarrow>
                        (let assistant_reply = or_else c [];
                             s2 = s1\<lparr>transcript :=
                                       messages @ [\<lparr>role = Assistant, content = assistant_reply\<rparr>]\<rparr>
                         in (Continue,
                             emit [Printed (CHR 0x0A # ''Agent: '' @ assistant_reply @ [CHR 0x0A])] s2)))))"

datatype loop_end = Broke | Raised py_exception

fun chat_loop :: "chat_api \<Rightarrow> string \<Rightarrow> input_event list \<Rightarrow> session \<Rightarrow> loop_end \<times> session" where
  "chat_loop chat m [] s =
     (Raised (EOFError ''EOF when reading a line''), emit [Prompted ''You: ''] s)"
| "chat_loop chat m (Input_raises ex # rest) s = (Raised ex, emit [Prompted ''You: ''] s)"
| "chat_loop chat m (Line raw # rest) s =
     (case turn chat m raw (emit [Prompted ''You: ''] s) of
        (Continue, s') \<Rightarrow> chat_loop chat m rest s'
      | (Break, s') \<Rightarrow> (Broke, s')
      | (Raise ex, s') \<Rightarrow> (Raised ex, s'))"

text \<open>
  The \<open>except\<close> clauses of the loop and how the function is left: by returning
  (exit code 0), by \<open>sys.exit(1)\<close>, or by an exception that no clause catches.
\<close>

definition deployment_not_found :: "string \<Rightarrow> bool" where
  "deployment_not_found error_text =
     (str_in ''DeploymentNotFound'' error_text \<or> str_in ''Error code: 404'' error_text)"

definition remediation :: "string \<Rightarrow> written list" where
  "remediation m =
     [Printed (CHR 0x0A # ''Error: Model deployment not found.''),
      Printed (''Requested model/deployment: '' @ m),
      Printed ''Target endpoint: AZURE_OPENAI_ENDPOINT'',
      Printed (CHR 0x0A # ''Fix:''),
      Printed ''1) Deploy a chat model in your AI Services account.'',
      Printed ''2) Set MODEL_DEPLOYMENT in .env to that deployment name.'',
      Printed ''3) Re-run this test script.'']"

fun handle_end :: "string \<Rightarrow> loop_end \<Rightarrow> session \<Rightarrow> session \<times> status" where
  "handle_end m Broke s = (s, Exit 0)"
| "handle_end m (Raised KeyboardInterrupt) s = (emit [Printed interrupted_farewell] s, Exit 0)"
| "handle_end m (Raised ex) s =
     (if is_exception ex
      then if deployment_not_found (str_of ex) then (emit (remediation m) s, Exit 1)
           else (emit [Printed (CHR 0x0A # ''Error: '' @ str_of ex)] s, Exit 1)
      else (s, Uncaught ex))"

definition banner :: "string \<Rightarrow> string \<Rightarrow> string \<Rightarrow> written list" where
  "banner name ver m =
     [Printed (CHR 0x0A # replicate 60 CHR ''=''),
      Printed ''Trail Guide Agent - Interactive Chat'',
      Printed (''Agent: '' @ name @ '' (version: '' @ ver @ '')''),
      Printed (''Model: '' @ m),
      Printed (replicate 60 CHR ''=''),
      Printed (CHR 0x0A # ''Type your questions or requests. Type '' @ [CHR 0x27] @ ''exit''
                 @ [CHR 0x27] @ '' or '' @ [CHR 0x27] @ ''quit'' @ [CHR 0x27]
                 @ '' to end the session.'' @ [CHR 0x0A]),
      Printed (''Started conversation.'' @ [CHR 0x0A])]"

text \<open>
  The state in which the loop starts: the transcript seeded with the system message,
  the one remote read made so far, and the banner on the terminal.
\<close>

definition start :: "string \<Rightarrow> agent_version_info \<Rightarrow> string \<Rightarrow> session" where
  "start name latest_version m =
     \<lparr>transcript = [\<lparr>role = System, content = instructions (defn latest_version)\<rparr>],
      calls = [Get_agent name],
      out = banner name (version latest_version) m\<rparr>"

text \<open>
  The \<open>try\<close> statement of lines 89 to 129: the loop, the \<open>except\<close> clauses, and
  the \<open>finally\<close> clause that closes the project client on every way out.
\<close>

definition run_session :: "chat_api \<Rightarrow> string \<Rightarrow> input_event list \<Rightarrow> session \<Rightarrow> run" where
  "run_session chat m inputs s =
     (let (r, s1) = chat_loop chat m inputs s;
          (s2, st) = handle_end m r s1
      in \<lparr>remote_calls = calls s2, stdout = out s2, status = st, client_closed = True\<rparr>)"

text \<open>
  The collaborators of the chat client, each raising or not: the construction of the
  credential and the project client for the endpoint (lines 48 to 51), the remote read
  of the agent, the construction of the credential and the token provider (lines 69
  to 72), the construction of the \<open>AzureOpenAI\<close> client for its endpoint (lines 73
  to 77), and the chat-completion call. What is constructed before the \<open>try\<close>
  statement is outside it: an exception there is not handled and the project client
  is not closed.
\<close>

record services =
  project_client :: constructor
  agents_get :: get_agent_api
  token_provider :: "py_exception option"
  azure_openai :: constructor
  completions :: chat_api

definition interact_with_agent :: "services \<Rightarrow> env \<Rightarrow> input_event list \<Rightarrow> run" where
  "interact_with_agent svc e inputs =
     (case environ e ''AZURE_AI_PROJECT_ENDPOINT'' of
        Inl ex \<Rightarrow> aborted ex
      | Inr endpoint \<Rightarrow>
          (case project_client svc endpoint of
             Some ex \<Rightarrow> aborted ex
           | None \<Rightarrow>
               (let name = getenv_default e ''AGENT_NAME'' ''trail-guide''
                in case agents_get svc name of
                     Inl ex \<Rightarrow> (aborted ex)\<lparr>remote_calls := [Get_agent name]\<rparr>
                   | Inr latest_version \<Rightarrow>
                       (let m = model_name e (defn latest_version)
                        in case token_provider svc of
                             Some ex \<Rightarrow> (aborted ex)\<lparr>remote_calls := [Get_agent name]\<rparr>
                           | None \<Rightarrow>
                               (case environ e ''AZURE_OPENAI_ENDPOINT'' of
                                  Inl ex \<Rightarrow> (aborted ex)\<lparr>remote_calls := [Get_agent name]\<rparr>
                                | Inr azure_endpoint \<Rightarrow>
                                    (case azure_openai svc azure_endpoint of
                                       Some ex \<Rightarrow>
                                         (aborted ex)\<lparr>remote_calls := [Get_agent name]\<rparr>
                                     | None \<Rightarrow>
                                         run_session (completions svc) m inputs
                                           (start name latest_version m)))))))"

definition chat_client :: "dotenv \<Rightarrow> services \<Rightarrow> string \<Rightarrow> env \<Rightarrow> input_event list \<Rightarrow> run" where
  "chat_client load_dotenv svc env_file e inputs =
     (case load_config load_dotenv chat_required_vars env_file e of
        Inl ex \<Rightarrow> aborted ex
      | Inr e' \<Rightarrow> interact_with_agent svc e' inputs)"

section \<open>Sample collaborators\<close>

text \<open>
  Concrete collaborators and inputs at which the model is run: an environment with the
  three required variables; constructors that succeed, and one that fails as
  \<open>DefaultAzureCredential\<close> does on a bad AZURE_TOKEN_CREDENTIALS; an agent service
  holding one version; chat services that reply without content, fail with a 404, are
  interrupted, and raise \<open>SystemExit\<close>; a file that no encoding decodes; a file saved
  as UTF-16 that only the third encoding decodes; a file that may not be read; and a
  Latin-1 file of the four bytes 41 3D E9 0A, without byte order mark: it is not UTF-8,
  the utf-16 codec raises \<open>UnicodeError\<close> on it, and utf-16-le and utf-16-be decode
  it to a line that sets no variable.
\<close>

definition sample_env :: env where
  "sample_env =
     [''AZURE_AI_PROJECT_ENDPOINT'' \<mapsto> ''https://project'',
      ''AZURE_OPENAI_ENDPOINT'' \<mapsto> ''https://openai'',
      ''AGENT_NAME'' \<mapsto> ''trail-guide'']"

definition constructed :: constructor where
  "constructed endpoint = None"

definition bogus_credential :: constructor where
  "bogus_credential endpoint = Some (ValueError ''Invalid value for AZURE_TOKEN_CREDENTIALS'')"

definition sample_agent :: get_agent_api where
  "sample_agent name =
     Inr \<lparr>version = ''1'', defn = \<lparr>model = ''gpt-4.1'', instructions = ''Guide hikers.''\<rparr>\<rparr>"

definition sample_create_version :: create_version_api where
  "sample_create_version name d =
     Inr \<lparr>agent_id = name @ '':1'', agent_name = name, agent_version = ''1''\<rparr>"

definition silent_chat :: chat_api where
  "silent_chat m messages = Response [None]"

definition failing_chat :: chat_api where
  "failing_chat m messages = Call_raises (OtherException ''Error code: 404 - Not Found'')"

definition interrupted_chat :: chat_api where
  "interrupted_chat m messages = Call_raises KeyboardInterrupt"


definition sample_services :: services where
  "sample_services =
     \<lparr>project_client = constructed, agents_get = sample_agent, token_provider = None,
      azure_openai = constructed, completions = silent_chat\<rparr>"

definition undecodable :: dotenv where
  "undecodable env_path encoding e = Inl (UnicodeDecodeError ''invalid start byte'')"

definition utf16_file :: dotenv where
  "utf16_file env_path encoding e =
     (if encoding = Some ''utf-16'' then Inr (e(''AGENT_NAME'' \<mapsto> ''trail-guide''))
      else Inl (UnicodeDecodeError ''invalid start byte''))"

definition unreadable_file :: dotenv where
  "unreadable_file env_path encoding e =
     Inl (OSError (''[Errno 13] Permission denied: '' @ [CHR 0x27] @ env_path @ [CHR 0x27]))"

definition latin1_file :: dotenv where
  "latin1_file env_path encoding e =
     (if encoding = None \<or> encoding = Some ''utf-8-sig''
      then Inl (UnicodeDecodeError ''invalid continuation byte'')
      else if encoding = Some ''utf-16''
      then Inl (UnicodeError ''UTF-16 stream does not start with BOM'')
      else Inr e)"

section \<open>Substrings\<close>



section \<open>Model resolution in the chat client\<close>

text \<open>
  C1. The effective model of the chat client follows the precedence MODEL_DEPLOYMENT,
  then AZURE_OPENAI_DEPLOYMENT, then MODEL_NAME, then the model field of the fetched
  definition, where a variable counts as set when it is present and not empty. With
  all three unset the result is the model field of the definition.
\<close>

theorem model_name_precedence:
  "(getenv e ''MODEL_DEPLOYMENT'' = Some a \<and> a \<noteq> [] \<longrightarrow> model_name e d = a) \<and>
   (\<not> truthy (getenv e ''MODEL_DEPLOYMENT'') \<and>
      getenv e ''AZURE_OPENAI_DEPLOYMENT'' = Some b \<and> b \<noteq> [] \<longrightarrow> model_name e d = b) \<and>
   (\<not> truthy (getenv e ''MODEL_DEPLOYMENT'') \<and>
      \<not> truthy (getenv e ''AZURE_OPENAI_DEPLOYMENT'') \<and>
      getenv e ''MODEL_NAME'' = Some c \<and> c \<noteq> [] \<longrightarrow> model_name e d = c) \<and>
   (\<not> truthy (getenv e ''MODEL_DEPLOYMENT'') \<and>
      \<not> truthy (getenv e ''AZURE_OPENAI_DEPLOYMENT'') \<and>
      \<not> truthy (getenv e ''MODEL_NAME'') \<longrightarrow> model_name e d = model d)"
  by (auto simp: model_name_def truthy_def or_else_def split: option.splits)

theorem model_name_precedence_witness:
  "model_name [''MODEL_DEPLOYMENT'' \<mapsto> ''A'', ''AZURE_OPENAI_DEPLOYMENT'' \<mapsto> ''B'',
               ''MODEL_NAME'' \<mapsto> ''C'']
     \<lparr>model = ''D'', instructions = []\<rparr> = ''A'' \<and>
   model_name [''MODEL_DEPLOYMENT'' \<mapsto> [], ''AZURE_OPENAI_DEPLOYMENT'' \<mapsto> ''B'',
               ''MODEL_NAME'' \<mapsto> ''C'']
     \<lparr>model = ''D'', instructions = []\<rparr> = ''B'' \<and>
   model_name [''AZURE_OPENAI_DEPLOYMENT'' \<mapsto> [], ''MODEL_NAME'' \<mapsto> ''C'']
     \<lparr>model = ''D'', instructions = []\<rparr> = ''C'' \<and>
   model_name Map.empty \<lparr>model = ''gpt-4.1'', instructions = []\<rparr> = ''gpt-4.1''"
  using
    model_name_precedence [of "[''MODEL_DEPLOYMENT'' \<mapsto> ''A'',
        ''AZURE_OPENAI_DEPLOYMENT'' \<mapsto> ''B'', ''MODEL_NAME'' \<mapsto> ''C'']" "''A''"
      "\<lparr>model = ''D'', instructions = []\<rparr>" "''B''" "''C''"]
    model_name_precedence [of "[''MODEL_DEPLOYMENT'' \<mapsto> [],
        ''AZURE_OPENAI_DEPLOYMENT'' \<mapsto> ''B'', ''MODEL_NAME'' \<mapsto> ''C'']" "''A''"
      "\<lparr>model = ''D'', instructions = []\<rparr>" "''B''" "''C''"]
    model_name_precedence [of "[''AZURE_OPENAI_DEPLOYMENT'' \<mapsto> [],
        ''MODEL_NAME'' \<mapsto> ''C'']" "''A''"
      "\<lparr>model = ''D'', instructions = []\<rparr>" "''B''" "''C''"]
    model_name_precedence [of Map.empty "''A''"
      "\<lparr>model = ''gpt-4.1'', instructions = []\<rparr>" "''B''" "''C''"]
  by (simp add: getenv_def truthy_def)

section \<open>The encoding fallbacks of the loader\<close>

lemma is_decode_error_iff: "is_decode_error r \<longleftrightarrow> (\<exists>t. r = Inl (UnicodeDecodeError t))"
  by (cases r rule: is_decode_error.cases) auto

lemma try_encodings_find:
  "try_encodings ld p e encs =
     (case find (\<lambda>enc. \<not> is_decode_error (ld p enc e)) encs of
        None \<Rightarrow> Inl (Unreadable (unreadable_message p))
      | Some enc \<Rightarrow> (case ld p enc e of Inr e' \<Rightarrow> Inr e' | Inl ex \<Rightarrow> Inl (Propagated ex)))"
  by (induction encs) (auto split: sum.splits py_exception.splits)

lemma try_encodings_prefix:
  "\<forall>x \<in> set pre. is_decode_error (ld p x e) \<Longrightarrow>
   try_encodings ld p e (pre @ rest) = try_encodings ld p e rest"
  by (induction pre) (auto simp: is_decode_error_iff)

lemma try_encodings_unreadable:
  "(\<exists>msg. try_encodings ld p e encs = Inl (Unreadable msg)) \<longleftrightarrow>
   (\<forall>enc \<in> set encs. is_decode_error (ld p enc e))"
  by (induction encs) (auto simp: is_decode_error_iff split: sum.splits py_exception.splits)

lemma load_env_unreadable_message:
  "load_env_with_fallbacks ld p e = Inl (Unreadable msg) \<Longrightarrow> msg = unreadable_message p"
  unfolding load_env_with_fallbacks_def try_encodings_find
  by (auto split: option.splits sum.splits)

lemma load_env_all_decode_errors:
  "\<forall>x \<in> set encodings. is_decode_error (ld p x e) \<Longrightarrow>
   load_env_with_fallbacks ld p e = Inl (Unreadable (unreadable_message p))"
  using try_encodings_unreadable [of ld p e encodings] load_env_unreadable_message [of ld p e]
  by (auto simp: load_env_with_fallbacks_def)

lemma try_encodings_propagates:
  assumes "\<forall>x \<in> set pre. is_decode_error (ld p x e)"
    and "ld p enc e = Inl ex" and "\<not> is_decode_error (Inl ex)"
  shows "try_encodings ld p e (pre @ enc # post) = Inl (Propagated ex)"
proof -
  have "try_encodings ld p e (pre @ enc # post) = try_encodings ld p e (enc # post)"
    using assms(1) by (rule try_encodings_prefix)
  also have "\<dots> = Inl (Propagated ex)"
    using assms(2,3) by (cases ex) simp_all
  finally show ?thesis .
qed

text \<open>
  C3. The loader does not do what the claim says for a file without byte order mark
  that is not UTF-8, here four Latin-1 bytes. The first two attempts raise
  \<open>UnicodeDecodeError\<close> and are followed by the next encoding. The utf-16 attempt
  fails to decode the file too, but with a \<open>UnicodeError\<close>, which the
  \<open>except UnicodeDecodeError\<close> clause does not catch. The loader leaves with that
  exception: utf-16-le, with which the load would return, is not tried, and the
  descriptive error that names the path is not raised either.
\<close>

theorem bom_less_file_escapes:
  "latin1_file ''/repo/.env'' None sample_env =
     Inl (UnicodeDecodeError ''invalid continuation byte'') \<and>
   latin1_file ''/repo/.env'' (Some ''utf-8-sig'') sample_env =
     Inl (UnicodeDecodeError ''invalid continuation byte'') \<and>
   latin1_file ''/repo/.env'' (Some ''utf-16'') sample_env =
     Inl (UnicodeError ''UTF-16 stream does not start with BOM'') \<and>
   latin1_file ''/repo/.env'' (Some ''utf-16-le'') sample_env = Inr sample_env \<and>
   latin1_file ''/repo/.env'' (Some ''utf-16-be'') sample_env = Inr sample_env \<and>
   load_env_with_fallbacks latin1_file ''/repo/.env'' sample_env =
     Inl (Propagated (UnicodeError ''UTF-16 stream does not start with BOM'')) \<and>
   load_env_with_fallbacks latin1_file ''/repo/.env'' sample_env \<noteq> Inr sample_env \<and>
   load_env_with_fallbacks latin1_file ''/repo/.env'' sample_env \<noteq>
     Inl (Unreadable ''Unable to read .env file at /repo/.env. Please save it as UTF-8.'') \<and>
   status (chat_client latin1_file sample_services ''/repo/.env'' sample_env []) =
     Uncaught (UnicodeError ''UTF-16 stream does not start with BOM'') \<and>
   \<not> str_in ''/repo/.env'' ''UTF-16 stream does not start with BOM''"
proof -
  have l: "load_env_with_fallbacks latin1_file ''/repo/.env'' sample_env =
     Inl (Propagated (UnicodeError ''UTF-16 stream does not start with BOM''))"
    by (simp add: load_env_with_fallbacks_def encodings_def latin1_file_def)
  have c: "status (chat_client latin1_file sample_services ''/repo/.env'' sample_env []) =
     Uncaught (UnicodeError ''UTF-16 stream does not start with BOM'')"
    by (simp add: chat_client_def load_config_def l aborted_def)
  have n: "\<not> str_in ''/repo/.env'' ''UTF-16 stream does not start with BOM''"
    by simp
  show ?thesis
    using l c n by (simp add: latin1_file_def)
qed

section \<open>The required variables\<close>

lemma not_truthy_iff: "\<not> truthy v \<longleftrightarrow> v = None \<or> v = Some []"
  by (cases v) (auto simp: truthy_def)

lemma set_missing_vars:
  "set (missing_vars req e) = {n \<in> set req. getenv e n = None \<or> getenv e n = Some []}"
  by (auto simp: missing_vars_def not_truthy_iff)

lemma load_config_missing:
  "load_env_with_fallbacks ld env_file e = Inr e' \<Longrightarrow> missing_vars req e' \<noteq> [] \<Longrightarrow>
   load_config ld req env_file e = Inl (RuntimeError (missing_message (missing_vars req e') env_file))"
  by (simp add: load_config_def)

lemma chat_enumeration_exact:
  "n \<in> set chat_required_vars \<Longrightarrow>
   str_in n (join '', '' (missing_vars chat_required_vars e)) \<longleftrightarrow>
   n \<in> set (missing_vars chat_required_vars e)"
  unfolding chat_required_vars_def missing_vars_def
  by (cases "truthy (getenv e ''AZURE_AI_PROJECT_ENDPOINT'')";
      cases "truthy (getenv e ''AZURE_OPENAI_ENDPOINT'')";
      cases "truthy (getenv e ''AGENT_NAME'')"; simp; elim disjE; simp)

lemma provisioner_enumeration_exact:
  "n \<in> set provisioner_required_vars \<Longrightarrow>
   str_in n (join '', '' (missing_vars provisioner_required_vars e)) \<longleftrightarrow>
   n \<in> set (missing_vars provisioner_required_vars e)"
  unfolding provisioner_required_vars_def missing_vars_def
  by (cases "truthy (getenv e ''AZURE_AI_PROJECT_ENDPOINT'')";
      cases "truthy (getenv e ''AGENT_NAME'')"; simp; elim disjE; simp)

lemma missing_vars_nonempty:
  "\<exists>n \<in> set req. getenv e n = None \<or> getenv e n = Some [] \<Longrightarrow> missing_vars req e \<noteq> []"
proof -
  assume "\<exists>n \<in> set req. getenv e n = None \<or> getenv e n = Some []"
  then have "set (missing_vars req e) \<noteq> {}" unfolding set_missing_vars by blast
  then show ?thesis by auto
qed

lemma provisioner_aborts:
  "load_config ld provisioner_required_vars env_file e = Inl ex \<Longrightarrow>
   provisioner ld pc cv env_file pf e = aborted ex"
  by (simp add: provisioner_def)

lemma chat_client_aborts:
  "load_config ld chat_required_vars env_file e = Inl ex \<Longrightarrow>
   chat_client ld svc env_file e inputs = aborted ex"
  by (simp add: chat_client_def)

text \<open>
  C4. Once the file has been loaded, either entry point whose list of required
  variables holds a name that is absent or empty in the environment stops, before any
  remote call, with a \<open>RuntimeError\<close> whose message enumerates the missing names,
  separated by commas, and ends with the path of the expected file. A required name
  occurs in the enumeration exactly when it is missing.
\<close>

theorem missing_required_vars_reported:
  assumes loaded: "load_env_with_fallbacks ld env_file e = Inr e'"
  shows
    "provisioner_required_vars = [''AZURE_AI_PROJECT_ENDPOINT'', ''AGENT_NAME''] \<and>
     chat_required_vars = [''AZURE_AI_PROJECT_ENDPOINT'', ''AZURE_OPENAI_ENDPOINT'', ''AGENT_NAME''] \<and>
     ((\<exists>n \<in> set provisioner_required_vars. getenv e' n = None \<or> getenv e' n = Some []) \<longrightarrow>
        remote_calls (provisioner ld pc cv env_file pf e) = [] \<and>
        status (provisioner ld pc cv env_file pf e) =
          Uncaught (RuntimeError (''Missing required environment variable(s): ''
            @ join '', '' (missing_vars provisioner_required_vars e')
            @ ''. Expected .env at: '' @ env_file))) \<and>
     ((\<exists>n \<in> set chat_required_vars. getenv e' n = None \<or> getenv e' n = Some []) \<longrightarrow>
        remote_calls (chat_client ld svc env_file e inputs) = [] \<and>
        status (chat_client ld svc env_file e inputs) =
          Uncaught (RuntimeError (''Missing required environment variable(s): ''
            @ join '', '' (missing_vars chat_required_vars e')
            @ ''. Expected .env at: '' @ env_file))) \<and>
     (\<forall>n \<in> set provisioner_required_vars.
        str_in n (join '', '' (missing_vars provisioner_required_vars e')) \<longleftrightarrow>
        (getenv e' n = None \<or> getenv e' n = Some [])) \<and>
     (\<forall>n \<in> set chat_required_vars.
        str_in n (join '', '' (missing_vars chat_required_vars e')) \<longleftrightarrow>
        (getenv e' n = None \<or> getenv e' n = Some []))"
proof (intro conjI impI ballI)
  show "provisioner_required_vars = [''AZURE_AI_PROJECT_ENDPOINT'', ''AGENT_NAME'']"
    by (simp add: provisioner_required_vars_def)
  show "chat_required_vars = [''AZURE_AI_PROJECT_ENDPOINT'', ''AZURE_OPENAI_ENDPOINT'', ''AGENT_NAME'']"
    by (simp add: chat_required_vars_def)
next
  assume "\<exists>n \<in> set provisioner_required_vars. getenv e' n = None \<or> getenv e' n = Some []"
  then have "missing_vars provisioner_required_vars e' \<noteq> []" by (rule missing_vars_nonempty)
  then have run: "provisioner ld pc cv env_file pf e =
      aborted (RuntimeError (missing_message (missing_vars provisioner_required_vars e') env_file))"
    using loaded by (intro provisioner_aborts load_config_missing)
  show "remote_calls (provisioner ld pc cv env_file pf e) = []"
    by (simp add: run aborted_def)
  show "status (provisioner ld pc cv env_file pf e) =
          Uncaught (RuntimeError (''Missing required environment variable(s): ''
            @ join '', '' (missing_vars provisioner_required_vars e')
            @ ''. Expected .env at: '' @ env_file))"
    by (simp add: run aborted_def missing_message_def)
next
  assume "\<exists>n \<in> set chat_required_vars. getenv e' n = None \<or> getenv e' n = Some []"
  then have "missing_vars chat_required_vars e' \<noteq> []" by (rule missing_vars_nonempty)
  then have run: "chat_client ld svc env_file e inputs =
      aborted (RuntimeError (missing_message (missing_vars chat_required_vars e') env_file))"
    using loaded by (intro chat_client_aborts load_config_missing)
  show "remote_calls (chat_client ld svc env_file e inputs) = []"
    by (simp add: run aborted_def)
  show "status (chat_client ld svc env_file e inputs) =
          Uncaught (RuntimeError (''Missing required environment variable(s): ''
            @ join '', '' (missing_vars chat_required_vars e')
            @ ''. Expected .env at: '' @ env_file))"
    by (simp add: run aborted_def missing_message_def)
next
  fix n assume n: "n \<in> set provisioner_required_vars"
  then have "n \<in> set (missing_vars provisioner_required_vars e') \<longleftrightarrow>
      (getenv e' n = None \<or> getenv e' n = Some [])"
    unfolding set_missing_vars by simp
  then show "str_in n (join '', '' (missing_vars provisioner_required_vars e')) \<longleftrightarrow>
        (getenv e' n = None \<or> getenv e' n = Some [])"
    using provisioner_enumeration_exact [OF n] by simp
next
  fix n assume n: "n \<in> set chat_required_vars"
  then have "n \<in> set (missing_vars chat_required_vars e') \<longleftrightarrow>
      (getenv e' n = None \<or> getenv e' n = Some [])"
    unfolding set_missing_vars by simp
  then show "str_in n (join '', '' (missing_vars chat_required_vars e')) \<longleftrightarrow>
        (getenv e' n = None \<or> getenv e' n = Some [])"
    using chat_enumeration_exact [OF n] by simp
qed

theorem missing_required_vars_reported_witness:
  "status (chat_client load_nothing sample_services ''/repo/.env''
       (Map.empty(''AGENT_NAME'' \<mapsto> ''trail-guide'')) []) =
     Uncaught (RuntimeError
       ''Missing required environment variable(s): AZURE_AI_PROJECT_ENDPOINT, AZURE_OPENAI_ENDPOINT. Expected .env at: /repo/.env'') \<and>
   status (provisioner load_nothing constructed sample_create_version ''/repo/.env'' (Inr ''Guide.'')
       (Map.empty(''AZURE_AI_PROJECT_ENDPOINT'' \<mapsto> ''https://project'', ''AGENT_NAME'' \<mapsto> []))) =
     Uncaught (RuntimeError
       ''Missing required environment variable(s): AGENT_NAME. Expected .env at: /repo/.env'')"
proof -
  let ?e1 = "Map.empty(''AGENT_NAME'' \<mapsto> ''trail-guide'')"
  let ?e2 = "Map.empty(''AZURE_AI_PROJECT_ENDPOINT'' \<mapsto> ''https://project'', ''AGENT_NAME'' \<mapsto> [])"
  have l1: "load_env_with_fallbacks load_nothing ''/repo/.env'' ?e1 = Inr ?e1"
    by (simp add: load_env_with_fallbacks_def encodings_def load_nothing_def)
  have l2: "load_env_with_fallbacks load_nothing ''/repo/.env'' ?e2 = Inr ?e2"
    by (simp add: load_env_with_fallbacks_def encodings_def load_nothing_def)
  have m1: "missing_vars chat_required_vars ?e1 = [''AZURE_AI_PROJECT_ENDPOINT'', ''AZURE_OPENAI_ENDPOINT'']"
    by (simp add: missing_vars_def chat_required_vars_def truthy_def getenv_def)
  have m2: "missing_vars provisioner_required_vars ?e2 = [''AGENT_NAME'']"
    by (simp add: missing_vars_def provisioner_required_vars_def truthy_def getenv_def)
  have h1: "\<exists>n \<in> set chat_required_vars. getenv ?e1 n = None \<or> getenv ?e1 n = Some []"
    by (simp add: chat_required_vars_def getenv_def)
  have h2: "\<exists>n \<in> set provisioner_required_vars. getenv ?e2 n = None \<or> getenv ?e2 n = Some []"
    by (simp add: provisioner_required_vars_def getenv_def)
  from missing_required_vars_reported [OF l1, where pc = constructed and cv = sample_create_version and pf = "Inr ''Guide.''"
      and svc = sample_services and inputs = "[]"] h1
  have 1: "status (chat_client load_nothing sample_services ''/repo/.env'' ?e1 []) =
     Uncaught (RuntimeError (''Missing required environment variable(s): ''
            @ join '', '' (missing_vars chat_required_vars ?e1)
            @ ''. Expected .env at: '' @ ''/repo/.env''))" by blast
  from missing_required_vars_reported [OF l2, where pc = constructed and cv = sample_create_version and pf = "Inr ''Guide.''"
      and svc = sample_services and inputs = "[]"] h2
  have 2: "status (provisioner load_nothing constructed sample_create_version ''/repo/.env'' (Inr ''Guide.'') ?e2) =
     Uncaught (RuntimeError (''Missing required environment variable(s): ''
            @ join '', '' (missing_vars provisioner_required_vars ?e2)
            @ ''. Expected .env at: '' @ ''/repo/.env''))" by blast
  show ?thesis using 1 2 unfolding m1 m2 by simp
qed
section \<open>One iteration of the chat loop\<close>

lemma emit_simps:
  "transcript (emit xs s) = transcript s"
  "calls (emit xs s) = calls s"
  "out (emit xs s) = out s @ xs"
  "emit ys (emit xs s) = emit (xs @ ys) s"
  by (simp_all add: emit_def)

lemma isspace_lower_char: "isspace c \<Longrightarrow> lower_char c = c"
proof -
  assume sp: "isspace c"
  define n where "n = (of_char c :: nat)"
  from sp have "n \<in> {9, 10, 11, 12, 13, 28, 29, 30, 31, 32, 133, 160}"
    unfolding isspace_def n_def by simp
  then have "\<not> ((65 \<le> n \<and> n \<le> 90) \<or> (192 \<le> n \<and> n \<le> 222 \<and> n \<noteq> 215))"
    by auto
  then have "(if (65 \<le> n \<and> n \<le> 90) \<or> (192 \<le> n \<and> n \<le> 222 \<and> n \<noteq> 215)
             then char_of (n + 32) else c) = c"
    by (rule if_not_P)
  then show ?thesis
    unfolding lower_char_def Let_def n_def .
qed

lemma strip_no_space: "\<forall>c \<in> set s. \<not> isspace c \<Longrightarrow> strip s = s"
proof -
  assume a: "\<forall>c \<in> set s. \<not> isspace c"
  have 1: "dropWhile isspace s = s"
    using a by (cases s) simp_all
  have "rev s = [] \<or> \<not> isspace (hd (rev s))"
    using a by (cases "s = []") (simp_all add: hd_rev)
  then have "dropWhile isspace (rev s) = rev s"
    by (simp only: dropWhile_eq_self_iff)
  then show ?thesis by (simp add: strip_def 1)
qed

lemma strip_empty_iff: "strip s = [] \<longleftrightarrow> (\<forall>c \<in> set s. isspace c)"
proof
  assume "strip s = []"
  then have "\<forall>c \<in> set (dropWhile isspace s). isspace c"
    by (simp add: strip_def)
  then have "dropWhile isspace s = []"
    using hd_dropWhile [of isspace s] by (cases "dropWhile isspace s") auto
  then show "\<forall>c \<in> set s. isspace c" by simp
next
  assume "\<forall>c \<in> set s. isspace c"
  then have "dropWhile isspace s = []" by simp
  then show "strip s = []" unfolding strip_def by (simp del: dropWhile_eq_Nil_conv)
qed

lemma exit_word_no_space: "w \<in> set exit_words \<Longrightarrow> c \<in> set w \<Longrightarrow> \<not> isspace c"
  by (auto simp: exit_words_def isspace_def)

lemma lower_exit_word_strip: "lower raw \<in> set exit_words \<Longrightarrow> strip raw = raw"
proof (rule strip_no_space, rule ballI)
  fix c assume w: "lower raw \<in> set exit_words" and c: "c \<in> set raw"
  then have "lower_char c \<in> set (lower raw)" by (simp add: lower_def)
  then have "\<not> isspace (lower_char c)" using w exit_word_no_space by blast
  then show "\<not> isspace c" using isspace_lower_char [of c] by auto
qed

lemma exit_word_nonempty: "lower u \<in> set exit_words \<Longrightarrow> u \<noteq> []"
  by (auto simp: exit_words_def lower_def)

lemma turn_empty: "strip raw = [] \<Longrightarrow> turn chat m raw s = (Continue, s)"
  by (simp add: turn_def)

lemma turn_exit:
  "lower (strip raw) \<in> set exit_words \<Longrightarrow> turn chat m raw s = (Break, emit [Printed farewell] s)"
  using exit_word_nonempty [of "strip raw"] by (simp add: turn_def)

lemma turn_reply:
  assumes "strip raw \<noteq> []" "lower (strip raw) \<notin> set exit_words"
    and "chat m (transcript s @ [\<lparr>role = User, content = strip raw\<rparr>]) = Response (c # cs)"
  shows "turn chat m raw s =
    (Continue,
     \<lparr>transcript = transcript s @ [\<lparr>role = User, content = strip raw\<rparr>,
                                   \<lparr>role = Assistant, content = or_else c []\<rparr>],
      calls = calls s @ [Chat_completion m (transcript s @ [\<lparr>role = User, content = strip raw\<rparr>])],
      out = out s @ [Printed (CHR 0x0A # ''Agent: '' @ or_else c [] @ [CHR 0x0A])]\<rparr>)"
  using assms by (simp add: turn_def Let_def emit_def)

lemma turn_calls:
  assumes "strip raw \<noteq> []" "lower (strip raw) \<notin> set exit_words"
  shows "calls (snd (turn chat m raw s)) =
     calls s @ [Chat_completion m (transcript s @ [\<lparr>role = User, content = strip raw\<rparr>])]"
  using assms by (simp add: turn_def Let_def emit_def split: chat_result.splits list.splits)

lemma turn_out: "\<exists>t. out (snd (turn chat m raw s)) = out s @ t"
  by (simp add: turn_def Let_def emit_def split: chat_result.splits list.splits)

lemma chat_loop_out: "\<exists>t. out (snd (chat_loop chat m inputs s)) = out s @ t"
proof (induction chat m inputs s rule: chat_loop.induct)
  case (1 chat m s)
  then show ?case by (simp add: emit_def)
next
  case (2 chat m ex rest s)
  then show ?case by (simp add: emit_def)
next
  case (3 chat m raw rest s)
  obtain r s' where t: "turn chat m raw (emit [Prompted ''You: ''] s) = (r, s')"
    by (cases "turn chat m raw (emit [Prompted ''You: ''] s)")
  obtain u where u: "out s' = out s @ Prompted ''You: '' # u"
    using turn_out [of chat m raw "emit [Prompted ''You: ''] s"] t by (auto simp: emit_def)
  show ?case
  proof (cases r)
    case Continue
    with 3 t obtain v where "out (snd (chat_loop chat m rest s')) = out s' @ v" by auto
    with Continue t u show ?thesis by simp
  next
    case Break
    with t u show ?thesis by simp
  next
    case (Raise ex)
    with t u show ?thesis by simp
  qed
qed

lemma chat_loop_prompts:
  "\<exists>t. out (snd (chat_loop chat m inputs s)) = out s @ Prompted ''You: '' # t"
proof (cases inputs)
  case Nil
  then show ?thesis by (simp add: emit_def)
next
  case (Cons ev rest)
  show ?thesis
  proof (cases ev)
    case (Input_raises ex)
    with Cons show ?thesis by (simp add: emit_def)
  next
    case (Line raw)
    obtain r s' where t: "turn chat m raw (emit [Prompted ''You: ''] s) = (r, s')"
      by (cases "turn chat m raw (emit [Prompted ''You: ''] s)")
    obtain u where u: "out s' = out s @ Prompted ''You: '' # u"
      using turn_out [of chat m raw "emit [Prompted ''You: ''] s"] t by (auto simp: emit_def)
    show ?thesis
    proof (cases r)
      case Continue
      obtain v where "out (snd (chat_loop chat m rest s')) = out s' @ v"
        using chat_loop_out by blast
      with Continue t u Cons Line show ?thesis by simp
    next
      case Break
      with t u Cons Line show ?thesis by simp
    next
      case (Raise ex)
      with t u Cons Line show ?thesis by simp
    qed
  qed
qed

lemma turn_raises:
  assumes "strip raw \<noteq> []" "lower (strip raw) \<notin> set exit_words"
    and "chat m (transcript s @ [\<lparr>role = User, content = strip raw\<rparr>]) = Call_raises ex"
  shows "turn chat m raw s =
    (Raise ex,
     \<lparr>transcript = transcript s @ [\<lparr>role = User, content = strip raw\<rparr>],
      calls = calls s @ [Chat_completion m (transcript s @ [\<lparr>role = User, content = strip raw\<rparr>])],
      out = out s\<rparr>)"
  using assms by (simp add: turn_def Let_def)

lemma turn_no_choice:
  assumes "strip raw \<noteq> []" "lower (strip raw) \<notin> set exit_words"
    and "chat m (transcript s @ [\<lparr>role = User, content = strip raw\<rparr>]) = Response []"
  shows "turn chat m raw s =
    (Raise (IndexError ''list index out of range''),
     \<lparr>transcript = transcript s @ [\<lparr>role = User, content = strip raw\<rparr>],
      calls = calls s @ [Chat_completion m (transcript s @ [\<lparr>role = User, content = strip raw\<rparr>])],
      out = out s\<rparr>)"
  using assms by (simp add: turn_def Let_def)

lemma chat_loop_turn:
  "chat_loop chat m (Line raw # rest) s =
     (case fst (turn chat m raw (emit [Prompted ''You: ''] s)) of
        Continue \<Rightarrow> chat_loop chat m rest (snd (turn chat m raw (emit [Prompted ''You: ''] s)))
      | Break \<Rightarrow> (Broke, snd (turn chat m raw (emit [Prompted ''You: ''] s)))
      | Raise ex \<Rightarrow> (Raised ex, snd (turn chat m raw (emit [Prompted ''You: ''] s))))"
  by (cases "turn chat m raw (emit [Prompted ''You: ''] s)") (simp split: turn_end.splits)

text \<open>
  C5, as the claim states it, fails when the chat-completion call raises: the line is
  normal, the call is made once, and the iteration ends with one entry appended, the
  user message, and no assistant message.
\<close>

theorem raising_call_appends_one_entry:
  "turn failing_chat ''gpt-4.1'' ''hi''
      \<lparr>transcript = [\<lparr>role = System, content = ''Guide hikers.''\<rparr>],
       calls = [Get_agent ''trail-guide''], out = []\<rparr> =
     (Raise (OtherException ''Error code: 404 - Not Found''),
      \<lparr>transcript = [\<lparr>role = System, content = ''Guide hikers.''\<rparr>,
                     \<lparr>role = User, content = ''hi''\<rparr>],
       calls = [Get_agent ''trail-guide'',
                Chat_completion ''gpt-4.1''
                  [\<lparr>role = System, content = ''Guide hikers.''\<rparr>,
                   \<lparr>role = User, content = ''hi''\<rparr>]],
       out = []\<rparr>)"
proof -
  have st: "strip ''hi'' = ''hi''"
    by (simp add: strip_def isspace_def)
  have lo: "lower ''hi'' \<notin> set exit_words"
    by (simp add: lower_def lower_char_def exit_words_def Let_def)
  show ?thesis
    by (simp add: turn_def st lo failing_chat_def Let_def)
qed

text \<open>
  C5, amended. A line that is neither empty after stripping nor an exit word makes the
  iteration append the user message and issue exactly one chat-completion call, whose
  messages are the transcript with that user message at its end. When the call returns
  a reply, the iteration appends the assistant message too, two entries in all, prints
  the reply and the loop goes on; a reply without content gives an assistant message
  whose content is the empty string. When the call raises, or the response has no
  choice, the user message stays the only entry appended and the loop ends with the
  exception.
\<close>

theorem normal_turn_outcomes:
  assumes "strip raw \<noteq> []" and "lower (strip raw) \<notin> set exit_words"
  shows
    "calls (snd (turn chat m raw s)) =
       calls s @ [Chat_completion m (transcript s @ [\<lparr>role = User, content = strip raw\<rparr>])] \<and>
     (chat m (transcript s @ [\<lparr>role = User, content = strip raw\<rparr>]) = Response (c # cs) \<longrightarrow>
        turn chat m raw s =
          (Continue,
           \<lparr>transcript = transcript s @
              [\<lparr>role = User, content = strip raw\<rparr>,
               \<lparr>role = Assistant, content = (case c of None \<Rightarrow> [] | Some t \<Rightarrow> t)\<rparr>],
            calls = calls s @
              [Chat_completion m (transcript s @ [\<lparr>role = User, content = strip raw\<rparr>])],
            out = out s @
              [Printed (CHR 0x0A # ''Agent: '' @ (case c of None \<Rightarrow> [] | Some t \<Rightarrow> t)
                          @ [CHR 0x0A])]\<rparr>) \<and>
        length (transcript (snd (turn chat m raw s))) = length (transcript s) + 2 \<and>
        chat_loop chat m (Line raw # rest) s =
          chat_loop chat m rest (snd (turn chat m raw (emit [Prompted ''You: ''] s)))) \<and>
     (chat m (transcript s @ [\<lparr>role = User, content = strip raw\<rparr>]) = Call_raises ex \<longrightarrow>
        turn chat m raw s =
          (Raise ex,
           \<lparr>transcript = transcript s @ [\<lparr>role = User, content = strip raw\<rparr>],
            calls = calls s @
              [Chat_completion m (transcript s @ [\<lparr>role = User, content = strip raw\<rparr>])],
            out = out s\<rparr>) \<and>
        fst (chat_loop chat m (Line raw # rest) s) = Raised ex) \<and>
     (chat m (transcript s @ [\<lparr>role = User, content = strip raw\<rparr>]) = Response [] \<longrightarrow>
        turn chat m raw s =
          (Raise (IndexError ''list index out of range''),
           \<lparr>transcript = transcript s @ [\<lparr>role = User, content = strip raw\<rparr>],
            calls = calls s @
              [Chat_completion m (transcript s @ [\<lparr>role = User, content = strip raw\<rparr>])],
            out = out s\<rparr>) \<and>
        fst (chat_loop chat m (Line raw # rest) s) = Raised (IndexError ''list index out of range''))"
proof (intro conjI impI)
  show "calls (snd (turn chat m raw s)) =
       calls s @ [Chat_completion m (transcript s @ [\<lparr>role = User, content = strip raw\<rparr>])]"
    using assms by (rule turn_calls)
next
  assume r: "chat m (transcript s @ [\<lparr>role = User, content = strip raw\<rparr>]) = Response (c # cs)"
  have c: "or_else c [] = (case c of None \<Rightarrow> [] | Some t \<Rightarrow> t)"
    by (simp add: or_else_def split: option.splits)
  have t: "turn chat m raw s =
    (Continue,
     \<lparr>transcript = transcript s @ [\<lparr>role = User, content = strip raw\<rparr>,
                                   \<lparr>role = Assistant, content = or_else c []\<rparr>],
      calls = calls s @ [Chat_completion m (transcript s @ [\<lparr>role = User, content = strip raw\<rparr>])],
      out = out s @ [Printed (CHR 0x0A # ''Agent: '' @ or_else c [] @ [CHR 0x0A])]\<rparr>)"
    using assms r by (rule turn_reply)
  show "turn chat m raw s =
          (Continue,
           \<lparr>transcript = transcript s @
              [\<lparr>role = User, content = strip raw\<rparr>,
               \<lparr>role = Assistant, content = (case c of None \<Rightarrow> [] | Some t \<Rightarrow> t)\<rparr>],
            calls = calls s @
              [Chat_completion m (transcript s @ [\<lparr>role = User, content = strip raw\<rparr>])],
            out = out s @
              [Printed (CHR 0x0A # ''Agent: '' @ (case c of None \<Rightarrow> [] | Some t \<Rightarrow> t)
                          @ [CHR 0x0A])]\<rparr>)"
    unfolding t c ..
  show "length (transcript (snd (turn chat m raw s))) = length (transcript s) + 2"
    by (simp add: t)
  have "chat m (transcript (emit [Prompted ''You: ''] s) @ [\<lparr>role = User, content = strip raw\<rparr>])
      = Response (c # cs)"
    using r by (simp add: emit_simps)
  with assms have "fst (turn chat m raw (emit [Prompted ''You: ''] s)) = Continue"
    by (simp add: turn_reply)
  then show "chat_loop chat m (Line raw # rest) s =
          chat_loop chat m rest (snd (turn chat m raw (emit [Prompted ''You: ''] s)))"
    by (simp only: chat_loop_turn turn_end.case)
next
  assume r: "chat m (transcript s @ [\<lparr>role = User, content = strip raw\<rparr>]) = Call_raises ex"
  show "turn chat m raw s =
          (Raise ex,
           \<lparr>transcript = transcript s @ [\<lparr>role = User, content = strip raw\<rparr>],
            calls = calls s @
              [Chat_completion m (transcript s @ [\<lparr>role = User, content = strip raw\<rparr>])],
            out = out s\<rparr>)"
    using assms r by (rule turn_raises)
  have "chat m (transcript (emit [Prompted ''You: ''] s) @ [\<lparr>role = User, content = strip raw\<rparr>])
      = Call_raises ex"
    using r by (simp add: emit_simps)
  with assms have "fst (turn chat m raw (emit [Prompted ''You: ''] s)) = Raise ex"
    by (simp add: turn_raises)
  then show "fst (chat_loop chat m (Line raw # rest) s) = Raised ex"
    by (simp only: chat_loop_turn turn_end.case fst_conv)
next
  assume r: "chat m (transcript s @ [\<lparr>role = User, content = strip raw\<rparr>]) = Response []"
  show "turn chat m raw s =
          (Raise (IndexError ''list index out of range''),
           \<lparr>transcript = transcript s @ [\<lparr>role = User, content = strip raw\<rparr>],
            calls = calls s @
              [Chat_completion m (transcript s @ [\<lparr>role = User, content = strip raw\<rparr>])],
            out = out s\<rparr>)"
    using assms r by (rule turn_no_choice)
  have "chat m (transcript (emit [Prompted ''You: ''] s) @ [\<lparr>role = User, content = strip raw\<rparr>])
      = Response []"
    using r by (simp add: emit_simps)
  with assms have "fst (turn chat m raw (emit [Prompted ''You: ''] s)) =
      Raise (IndexError ''list index out of range'')"
    by (simp add: turn_no_choice)
  then show "fst (chat_loop chat m (Line raw # rest) s) =
      Raised (IndexError ''list index out of range'')"
    by (simp only: chat_loop_turn turn_end.case fst_conv)
qed

theorem normal_turn_outcomes_witness:
  "turn silent_chat ''gpt-4.1'' ''  Hello ''
      \<lparr>transcript = [\<lparr>role = System, content = ''Guide hikers.''\<rparr>],
       calls = [Get_agent ''trail-guide''], out = []\<rparr> =
     (Continue,
      \<lparr>transcript = [\<lparr>role = System, content = ''Guide hikers.''\<rparr>,
                     \<lparr>role = User, content = ''Hello''\<rparr>,
                     \<lparr>role = Assistant, content = []\<rparr>],
       calls = [Get_agent ''trail-guide'',
                Chat_completion ''gpt-4.1''
                  [\<lparr>role = System, content = ''Guide hikers.''\<rparr>,
                   \<lparr>role = User, content = ''Hello''\<rparr>]],
       out = [Printed (CHR 0x0A # ''Agent: '' @ [CHR 0x0A])]\<rparr>) \<and>
   fst (chat_loop interrupted_chat ''gpt-4.1'' [Line ''  Hello '', Line ''more'']
      \<lparr>transcript = [\<lparr>role = System, content = ''Guide hikers.''\<rparr>],
       calls = [Get_agent ''trail-guide''], out = []\<rparr>) = Raised KeyboardInterrupt"
proof -
  let ?s = "\<lparr>transcript = [\<lparr>role = System, content = ''Guide hikers.''\<rparr>],
       calls = [Get_agent ''trail-guide''], out = []\<rparr>"
  have st: "strip ''  Hello '' = ''Hello''"
    by (simp add: strip_def isspace_def)
  have h1: "strip ''  Hello '' \<noteq> []"
    by (simp add: st)
  have h2: "lower (strip ''  Hello '') \<notin> set exit_words"
    unfolding st by (simp add: lower_def lower_char_def exit_words_def Let_def)
  have h3: "silent_chat ''gpt-4.1'' (transcript ?s @ [\<lparr>role = User, content = strip ''  Hello ''\<rparr>])
      = Response (None # [])"
    by (simp add: silent_chat_def)
  have h4: "interrupted_chat ''gpt-4.1''
      (transcript ?s @ [\<lparr>role = User, content = strip ''  Hello ''\<rparr>]) = Call_raises KeyboardInterrupt"
    by (simp add: interrupted_chat_def)
  have 1: "turn silent_chat ''gpt-4.1'' ''  Hello '' ?s =
     (Continue,
      \<lparr>transcript = [\<lparr>role = System, content = ''Guide hikers.''\<rparr>,
                     \<lparr>role = User, content = ''Hello''\<rparr>,
                     \<lparr>role = Assistant, content = []\<rparr>],
       calls = [Get_agent ''trail-guide'',
                Chat_completion ''gpt-4.1''
                  [\<lparr>role = System, content = ''Guide hikers.''\<rparr>,
                   \<lparr>role = User, content = ''Hello''\<rparr>]],
       out = [Printed (CHR 0x0A # ''Agent: '' @ [CHR 0x0A])]\<rparr>)"
    using normal_turn_outcomes [OF h1 h2, where chat = silent_chat and m = "''gpt-4.1''"
        and s = ?s and c = None and cs = "[]" and rest = "[]"
        and ex = KeyboardInterrupt] h3
    by (simp add: st)
  have 2: "fst (chat_loop interrupted_chat ''gpt-4.1'' [Line ''  Hello '', Line ''more''] ?s) =
      Raised KeyboardInterrupt"
    using normal_turn_outcomes [OF h1 h2, where chat = interrupted_chat and m = "''gpt-4.1''"
        and s = ?s and c = None and cs = "[]" and rest = "[Line ''more'']"
        and ex = KeyboardInterrupt] h4
    by blast
  show ?thesis using 1 2 by blast
qed

text \<open>
  C6. A line that is "exit", "quit" or "q" in any letter case, with or without
  surrounding whitespace, makes the iteration print the farewell, an empty line and
  then "Ending session. Goodbye!", and leave the loop:
  the transcript and the calls are unchanged, the lines after it are not read, and
  the session ends with exit code 0.
\<close>

theorem exit_word_terminates:
  assumes "lower raw \<in> set exit_words \<or> lower (strip raw) \<in> set exit_words"
  shows
    "exit_words = [''exit'', ''quit'', ''q''] \<and>
     turn chat m raw s = (Break, emit [Printed (CHR 0x0A # ''Ending session. Goodbye!'')] s) \<and>
     transcript (snd (turn chat m raw s)) = transcript s \<and>
     calls (snd (turn chat m raw s)) = calls s \<and>
     chat_loop chat m (Line raw # rest) s =
       (Broke,
        emit [Prompted ''You: '', Printed (CHR 0x0A # ''Ending session. Goodbye!'')] s) \<and>
     run_session chat m (Line raw # rest) s =
       \<lparr>remote_calls = calls s,
        stdout = out s @ [Prompted ''You: '', Printed (CHR 0x0A # ''Ending session. Goodbye!'')],
        status = Exit 0, client_closed = True\<rparr>"
proof -
  have w: "lower (strip raw) \<in> set exit_words"
    using assms lower_exit_word_strip [of raw] by auto
  have t: "turn chat m raw s' = (Break, emit [Printed farewell] s')" for s'
    using w by (rule turn_exit)
  have l: "chat_loop chat m (Line raw # rest) s =
       (Broke, emit [Prompted ''You: '', Printed farewell] s)"
    by (simp add: t emit_simps)
  show ?thesis
    by (simp add: t l run_session_def emit_simps) (simp add: exit_words_def farewell_def)
qed

theorem exit_word_terminates_witness:
  "run_session silent_chat ''gpt-4.1'' [Line ''QUIT'', Line ''more'']
      \<lparr>transcript = [\<lparr>role = System, content = ''Guide hikers.''\<rparr>],
       calls = [Get_agent ''trail-guide''], out = []\<rparr> =
     \<lparr>remote_calls = [Get_agent ''trail-guide''],
      stdout = [Prompted ''You: '', Printed (CHR 0x0A # ''Ending session. Goodbye!'')],
      status = Exit 0, client_closed = True\<rparr>"
proof -
  have "lower ''QUIT'' \<in> set exit_words"
    by code_simp
  then have "lower ''QUIT'' \<in> set exit_words \<or> lower (strip ''QUIT'') \<in> set exit_words"
    by simp
  from exit_word_terminates [OF this, where chat = silent_chat and m = "''gpt-4.1''"
      and rest = "[Line ''more'']"
      and s = "\<lparr>transcript = [\<lparr>role = System, content = ''Guide hikers.''\<rparr>],
       calls = [Get_agent ''trail-guide''], out = []\<rparr>"]
  show ?thesis by simp
qed

text \<open>
  C10. A line that is empty after stripping, that is a line of whitespace only, leaves
  the session as it was, with no call made, and the loop prompts again.
\<close>

theorem empty_input_is_noop:
  assumes "strip raw = []"
  shows
    "(\<forall>c \<in> set raw. isspace c) \<and>
     turn chat m raw s = (Continue, s) \<and>
     chat_loop chat m (Line raw # rest) s = chat_loop chat m rest (emit [Prompted ''You: ''] s) \<and>
     (\<exists>t. out (snd (chat_loop chat m (Line raw # rest) s)) =
        out s @ Prompted ''You: '' # Prompted ''You: '' # t)"
proof -
  have t: "turn chat m raw s' = (Continue, s')" for s'
    using assms by (rule turn_empty)
  have l: "chat_loop chat m (Line raw # rest) s = chat_loop chat m rest (emit [Prompted ''You: ''] s)"
    by (simp add: t)
  obtain u where "out (snd (chat_loop chat m rest (emit [Prompted ''You: ''] s))) =
      out (emit [Prompted ''You: ''] s) @ Prompted ''You: '' # u"
    using chat_loop_prompts by blast
  then have "out (snd (chat_loop chat m (Line raw # rest) s)) =
        out s @ Prompted ''You: '' # Prompted ''You: '' # u"
    unfolding l by (simp add: emit_simps)
  moreover have "\<forall>c \<in> set raw. isspace c"
    using assms by (simp only: strip_empty_iff)
  ultimately show ?thesis using t l by blast
qed

theorem empty_input_is_noop_witness:
  "turn silent_chat ''gpt-4.1'' [CHR 0x20, CHR 0x09, CHR 0x20]
      \<lparr>transcript = [\<lparr>role = System, content = ''Guide hikers.''\<rparr>],
       calls = [Get_agent ''trail-guide''], out = []\<rparr> =
     (Continue,
      \<lparr>transcript = [\<lparr>role = System, content = ''Guide hikers.''\<rparr>],
       calls = [Get_agent ''trail-guide''], out = []\<rparr>)"
proof -
  have "strip [CHR 0x20, CHR 0x09, CHR 0x20] = []"
    by (simp add: strip_def isspace_def)
  from empty_input_is_noop [OF this, where chat = silent_chat and m = "''gpt-4.1''"
      and rest = "[]"
      and s = "\<lparr>transcript = [\<lparr>role = System, content = ''Guide hikers.''\<rparr>],
       calls = [Get_agent ''trail-guide''], out = []\<rparr>"]
  show ?thesis by simp
qed

section \<open>How the session ends\<close>




lemma run_session_interrupted:
  "chat_loop chat m inputs s = (Raised KeyboardInterrupt, s1) \<Longrightarrow>
   run_session chat m inputs s =
     \<lparr>remote_calls = calls s1, stdout = out s1 @ [Printed interrupted_farewell],
      status = Exit 0, client_closed = True\<rparr>"
  by (simp add: run_session_def emit_simps)

lemma run_session_broke:
  "chat_loop chat m inputs s = (Broke, s1) \<Longrightarrow>
   run_session chat m inputs s =
     \<lparr>remote_calls = calls s1, stdout = out s1, status = Exit 0, client_closed = True\<rparr>"
  by (simp add: run_session_def)

lemma handle_end_status:
  "snd (handle_end m r s) =
     (case r of
        Broke \<Rightarrow> Exit 0
      | Raised ex \<Rightarrow>
          if ex = KeyboardInterrupt then Exit 0
          else if is_exception ex then Exit 1 else Uncaught ex)"
proof (cases r)
  case Broke
  then show ?thesis by simp
next
  case (Raised ex)
  then show ?thesis by (cases ex) simp_all
qed

lemma run_session_status:
  "status (run_session chat m inputs s) =
     (case fst (chat_loop chat m inputs s) of
        Broke \<Rightarrow> Exit 0
      | Raised ex \<Rightarrow>
          if ex = KeyboardInterrupt then Exit 0
          else if is_exception ex then Exit 1 else Uncaught ex)"
proof -
  obtain r s1 where l: "chat_loop chat m inputs s = (r, s1)"
    by (cases "chat_loop chat m inputs s")
  obtain s2 st where h: "handle_end m r s1 = (s2, st)"
    by (cases "handle_end m r s1")
  have "st = (case r of
        Broke \<Rightarrow> Exit 0
      | Raised ex \<Rightarrow>
          if ex = KeyboardInterrupt then Exit 0
          else if is_exception ex then Exit 1 else Uncaught ex)"
    using handle_end_status [of m r s1] h by simp
  then show ?thesis by (simp add: run_session_def l h)
qed






lemma interrupted_loop:
  "chat_loop interrupted_chat ''gpt-4.1'' [Line ''hi''] \<lparr>transcript = [], calls = [], out = []\<rparr> =
     (Raised KeyboardInterrupt,
      \<lparr>transcript = [\<lparr>role = User, content = ''hi''\<rparr>],
       calls = [Chat_completion ''gpt-4.1'' [\<lparr>role = User, content = ''hi''\<rparr>]],
       out = [Prompted ''You: '']\<rparr>)"
proof -
  have st: "strip ''hi'' = ''hi''"
    by (simp add: strip_def isspace_def)
  have lo: "lower ''hi'' \<notin> set exit_words"
    by (simp add: lower_def lower_char_def exit_words_def Let_def)
  show ?thesis
    by (simp add: turn_def st lo interrupted_chat_def emit_def Let_def)
qed






text \<open>
  C7. A \<open>KeyboardInterrupt\<close>, raised by the prompt or during a call, ends the
  session like an exit word does: a farewell is printed, no error line, the client is
  closed and the exit code is 0. No other exception gives exit code 0. The farewell of
  the interrupt has its own wording.
\<close>

theorem interrupt_is_graceful:
  "(chat_loop chat m inputs s = (Raised KeyboardInterrupt, s1) \<longrightarrow>
      run_session chat m inputs s =
        \<lparr>remote_calls = calls s1, stdout = out s1 @ [Printed interrupted_farewell],
         status = Exit 0, client_closed = True\<rparr>) \<and>
   chat_loop chat m (Input_raises KeyboardInterrupt # rest) s =
     (Raised KeyboardInterrupt, emit [Prompted ''You: ''] s) \<and>
   (chat_loop chat m inputs s = (Broke, s1) \<longrightarrow>
      run_session chat m inputs s =
        \<lparr>remote_calls = calls s1, stdout = out s1, status = Exit 0, client_closed = True\<rparr>) \<and>
   (status (run_session chat m inputs s) = Exit 0 \<longleftrightarrow>
      fst (chat_loop chat m inputs s) = Broke \<or>
      fst (chat_loop chat m inputs s) = Raised KeyboardInterrupt) \<and>
   (status (run_session chat m inputs s) \<noteq> Exit 0 \<longrightarrow>
      status (run_session chat m inputs s) = Exit 1 \<or>
      (\<exists>ex. \<not> is_exception ex \<and> status (run_session chat m inputs s) = Uncaught ex)) \<and>
   interrupted_farewell = [CHR 0x0A, CHR 0x0A] @ ''Session interrupted. Goodbye!'' \<and>
   farewell = [CHR 0x0A] @ ''Ending session. Goodbye!'' \<and>
   \<not> str_in ''Error'' interrupted_farewell"
proof (intro conjI impI)
  assume "chat_loop chat m inputs s = (Raised KeyboardInterrupt, s1)"
  then show "run_session chat m inputs s =
        \<lparr>remote_calls = calls s1, stdout = out s1 @ [Printed interrupted_farewell],
         status = Exit 0, client_closed = True\<rparr>"
    by (rule run_session_interrupted)
next
  show "chat_loop chat m (Input_raises KeyboardInterrupt # rest) s =
     (Raised KeyboardInterrupt, emit [Prompted ''You: ''] s)"
    by simp
next
  assume "chat_loop chat m inputs s = (Broke, s1)"
  then show "run_session chat m inputs s =
        \<lparr>remote_calls = calls s1, stdout = out s1, status = Exit 0, client_closed = True\<rparr>"
    by (rule run_session_broke)
next
  show "status (run_session chat m inputs s) = Exit 0 \<longleftrightarrow>
      fst (chat_loop chat m inputs s) = Broke \<or>
      fst (chat_loop chat m inputs s) = Raised KeyboardInterrupt"
    by (auto simp: run_session_status split: loop_end.splits if_splits)
next
  assume "status (run_session chat m inputs s) \<noteq> Exit 0"
  then show "status (run_session chat m inputs s) = Exit 1 \<or>
      (\<exists>ex. \<not> is_exception ex \<and> status (run_session chat m inputs s) = Uncaught ex)"
    by (auto simp: run_session_status split: loop_end.splits if_splits)
next
  show "interrupted_farewell = [CHR 0x0A, CHR 0x0A] @ ''Session interrupted. Goodbye!''"
    by (simp add: interrupted_farewell_def)
  show "farewell = [CHR 0x0A] @ ''Ending session. Goodbye!''"
    by (simp add: farewell_def)
  show "\<not> str_in ''Error'' interrupted_farewell"
    by (simp add: interrupted_farewell_def)
qed

theorem interrupt_is_graceful_witness:
  "run_session interrupted_chat ''gpt-4.1'' [Line ''hi'']
      \<lparr>transcript = [], calls = [], out = []\<rparr> =
     \<lparr>remote_calls = [Chat_completion ''gpt-4.1'' [\<lparr>role = User, content = ''hi''\<rparr>]],
      stdout = [Prompted ''You: '', Printed interrupted_farewell],
      status = Exit 0, client_closed = True\<rparr>"
  using interrupt_is_graceful [where chat = interrupted_chat and m = "''gpt-4.1''"
      and inputs = "[Line ''hi'']" and s = "\<lparr>transcript = [], calls = [], out = []\<rparr>"
      and rest = "[]"
      and ?s1.0 = "\<lparr>transcript = [\<lparr>role = User, content = ''hi''\<rparr>],
       calls = [Chat_completion ''gpt-4.1'' [\<lparr>role = User, content = ''hi''\<rparr>]],
       out = [Prompted ''You: '']\<rparr>"]
    interrupted_loop
  by simp
section \<open>The provisioner's call\<close>

lemma last_dropWhile: "dropWhile P xs \<noteq> [] \<Longrightarrow> last (dropWhile P xs) = last xs"
proof -
  assume n: "dropWhile P xs \<noteq> []"
  have "last xs = last (takeWhile P xs @ dropWhile P xs)" by simp
  also have "\<dots> = last (dropWhile P xs)" using n by (rule last_appendR)
  finally show ?thesis by simp
qed

lemma strip_decomposition:
  "\<exists>a b. s = a @ strip s @ b \<and> (\<forall>c \<in> set a. isspace c) \<and> (\<forall>c \<in> set b. isspace c)"
proof -
  let ?u = "dropWhile isspace s"
  let ?a = "takeWhile isspace s"
  let ?b = "rev (takeWhile isspace (rev ?u))"
  have "rev (takeWhile isspace (rev ?u) @ dropWhile isspace (rev ?u)) = rev (rev ?u)"
    by (simp only: takeWhile_dropWhile_id)
  then have "rev (dropWhile isspace (rev ?u)) @ ?b = ?u"
    by (simp only: rev_append rev_rev_ident)
  then have u: "?u = strip s @ ?b" by (simp only: strip_def)
  have "s = ?a @ ?u" by simp
  with u have 1: "s = ?a @ strip s @ ?b" by simp
  have 2: "\<forall>c \<in> set ?a. isspace c" by (auto dest: set_takeWhileD)
  have 3: "\<forall>c \<in> set ?b. isspace c" by (auto dest: set_takeWhileD)
  from 1 2 3 show ?thesis by blast
qed

lemma strip_ends:
  assumes "strip s \<noteq> []"
  shows "\<not> isspace (hd (strip s)) \<and> \<not> isspace (last (strip s))"
proof -
  let ?u = "dropWhile isspace s"
  let ?v = "dropWhile isspace (rev ?u)"
  from assms have v: "?v \<noteq> []" by (simp add: strip_def del: dropWhile_eq_Nil_conv)
  have u: "?u \<noteq> []"
  proof
    assume "?u = []"
    then have "?v = []" by (simp only: rev.simps dropWhile.simps)
    with v show False by contradiction
  qed
  have "last (strip s) = hd ?v" using v by (simp add: strip_def last_rev del: dropWhile_eq_Nil_conv)
  moreover have "\<not> isspace (hd ?v)" using v by (rule hd_dropWhile)
  moreover have "hd (strip s) = last ?v" using v by (simp add: strip_def hd_rev del: dropWhile_eq_Nil_conv)
  moreover have "last ?v = last (rev ?u)" using v by (rule last_dropWhile)
  moreover have "last (rev ?u) = hd ?u" using u by (simp add: last_rev del: dropWhile_eq_Nil_conv)
  moreover have "\<not> isspace (hd ?u)" using u by (rule hd_dropWhile)
  ultimately show ?thesis by simp
qed

lemma load_config_ok:
  "load_config ld req env_file e = Inr e' \<Longrightarrow> n \<in> set req \<Longrightarrow> truthy (getenv e' n)"
  by (auto simp: load_config_def missing_vars_def Let_def filter_empty_conv
      split: sum.splits if_splits)

lemma provisioner_run:
  assumes "load_config ld provisioner_required_vars env_file e = Inr e'"
    and "e' ''AZURE_AI_PROJECT_ENDPOINT'' = Some endpoint"
    and "pc endpoint = None"
    and "e' ''AGENT_NAME'' = Some name"
  shows "provisioner ld pc cv env_file (Inr prompt) e =
     (case cv name \<lparr>model = getenv_default e' ''MODEL_NAME'' default_model,
                     instructions = strip prompt\<rparr> of
        Inl ex \<Rightarrow>
          \<lparr>remote_calls =
             [Create_version name
                \<lparr>model = getenv_default e' ''MODEL_NAME'' default_model,
                 instructions = strip prompt\<rparr>],
           stdout = [], status = Uncaught ex, client_closed = False\<rparr>
      | Inr agent \<Rightarrow>
          \<lparr>remote_calls =
             [Create_version name
                \<lparr>model = getenv_default e' ''MODEL_NAME'' default_model,
                 instructions = strip prompt\<rparr>],
           stdout = [Printed (created_message agent)], status = Exit 0,
           client_closed = False\<rparr>)"
  using assms by (simp add: provisioner_def environ_def Let_def)

lemma provisioner_no_client:
  assumes "load_config ld provisioner_required_vars env_file e = Inr e'"
    and "e' ''AZURE_AI_PROJECT_ENDPOINT'' = Some endpoint"
    and "pc endpoint = Some ex"
  shows "provisioner ld pc cv env_file (Inr prompt) e = aborted ex"
  using assms by (simp add: provisioner_def environ_def Let_def)

lemma provisioner_no_prompt:
  assumes "load_config ld provisioner_required_vars env_file e = Inr e'"
  shows "provisioner ld pc cv env_file (Inl ex) e = aborted ex"
  using assms by (simp add: provisioner_def)

lemma sample_config:
  "load_config load_nothing provisioner_required_vars ''/repo/.env'' sample_env = Inr sample_env"
  "load_config load_nothing chat_required_vars ''/repo/.env'' sample_env = Inr sample_env"
  by (simp_all add: load_config_def load_env_with_fallbacks_def encodings_def load_nothing_def
      missing_vars_def provisioner_required_vars_def chat_required_vars_def sample_env_def
      truthy_def getenv_def)

text \<open>
  C9, as the claim states it, fails when the credential cannot be constructed: with a
  valid configuration and a readable instruction file, the constructor of line 45
  raises, the run ends with that exception and no \<open>create_version\<close> call is made.
\<close>

theorem bad_credential_makes_no_call:
  "remote_calls (provisioner load_nothing bogus_credential sample_create_version ''/repo/.env''
       (Inr ''Guide hikers.'') sample_env) = [] \<and>
   status (provisioner load_nothing bogus_credential sample_create_version ''/repo/.env''
       (Inr ''Guide hikers.'') sample_env) =
     Uncaught (ValueError ''Invalid value for AZURE_TOKEN_CREDENTIALS'')"
proof -
  have "provisioner load_nothing bogus_credential sample_create_version ''/repo/.env''
       (Inr ''Guide hikers.'') sample_env =
     aborted (ValueError ''Invalid value for AZURE_TOKEN_CREDENTIALS'')"
    by (rule provisioner_no_client [OF sample_config(1), where endpoint = "''https://project''"])
      (simp_all add: sample_env_def bogus_credential_def)
  then show ?thesis by (simp add: aborted_def)
qed

text \<open>
  C9, amended. With a valid configuration, a readable instruction file, and the
  credential and the project client constructed without an exception, the provisioner
  issues exactly one \<open>create_version\<close> call, for the agent named by AGENT_NAME. Its
  definition carries the file's content without the surrounding whitespace as
  instructions, and as model the value of MODEL_NAME, or "gpt-4.1" when MODEL_NAME is
  absent; when the call returns, the created agent is reported and the exit code is 0.
  When the instruction file cannot be read, or the construction raises, the run ends
  with that exception and without a call. The chat client has no default model: with
  its three override variables unset it uses the model of the fetched definition,
  whatever that is.
\<close>

theorem provisioner_creates_one_version:
  assumes "load_config ld provisioner_required_vars env_file e = Inr e'"
    and "e' ''AZURE_AI_PROJECT_ENDPOINT'' = Some endpoint"
  shows
    "default_model = ''gpt-4.1'' \<and>
     (pc endpoint = None \<longrightarrow>
        (\<exists>name. getenv e' ''AGENT_NAME'' = Some name \<and>
           remote_calls (provisioner ld pc create_version env_file (Inr prompt) e) =
             [Create_version name
                \<lparr>model = (case getenv e' ''MODEL_NAME'' of None \<Rightarrow> ''gpt-4.1'' | Some v \<Rightarrow> v),
                 instructions = strip prompt\<rparr>] \<and>
           (\<forall>agent.
              create_version name
                \<lparr>model = (case getenv e' ''MODEL_NAME'' of None \<Rightarrow> ''gpt-4.1'' | Some v \<Rightarrow> v),
                 instructions = strip prompt\<rparr> = Inr agent \<longrightarrow>
              stdout (provisioner ld pc create_version env_file (Inr prompt) e) =
                [Printed (''Agent created (id: '' @ agent_id agent @ '', name: ''
                            @ agent_name agent @ '', version: '' @ agent_version agent @ '')'')] \<and>
              status (provisioner ld pc create_version env_file (Inr prompt) e) = Exit 0) \<and>
           (\<forall>ex.
              create_version name
                \<lparr>model = (case getenv e' ''MODEL_NAME'' of None \<Rightarrow> ''gpt-4.1'' | Some v \<Rightarrow> v),
                 instructions = strip prompt\<rparr> = Inl ex \<longrightarrow>
              stdout (provisioner ld pc create_version env_file (Inr prompt) e) = [] \<and>
              status (provisioner ld pc create_version env_file (Inr prompt) e) = Uncaught ex))) \<and>
     (pc endpoint = Some ex \<longrightarrow>
        provisioner ld pc create_version env_file (Inr prompt) e = aborted ex) \<and>
     provisioner ld pc create_version env_file (Inl ex) e = aborted ex \<and>
     remote_calls (aborted ex) = [] \<and> status (aborted ex) = Uncaught ex \<and>
     (\<exists>a b. prompt = a @ strip prompt @ b \<and> (\<forall>c \<in> set a. isspace c) \<and> (\<forall>c \<in> set b. isspace c)) \<and>
     (strip prompt \<noteq> [] \<longrightarrow> \<not> isspace (hd (strip prompt)) \<and> \<not> isspace (last (strip prompt))) \<and>
     (\<not> truthy (getenv env ''MODEL_DEPLOYMENT'') \<and>
      \<not> truthy (getenv env ''AZURE_OPENAI_DEPLOYMENT'') \<and>
      \<not> truthy (getenv env ''MODEL_NAME'') \<longrightarrow> model_name env d = model d)"
proof (intro conjI)
  show "default_model = ''gpt-4.1''" by (simp add: default_model_def)
next
  show "pc endpoint = None \<longrightarrow>
        (\<exists>name. getenv e' ''AGENT_NAME'' = Some name \<and>
           remote_calls (provisioner ld pc create_version env_file (Inr prompt) e) =
             [Create_version name
                \<lparr>model = (case getenv e' ''MODEL_NAME'' of None \<Rightarrow> ''gpt-4.1'' | Some v \<Rightarrow> v),
                 instructions = strip prompt\<rparr>] \<and>
           (\<forall>agent.
              create_version name
                \<lparr>model = (case getenv e' ''MODEL_NAME'' of None \<Rightarrow> ''gpt-4.1'' | Some v \<Rightarrow> v),
                 instructions = strip prompt\<rparr> = Inr agent \<longrightarrow>
              stdout (provisioner ld pc create_version env_file (Inr prompt) e) =
                [Printed (''Agent created (id: '' @ agent_id agent @ '', name: ''
                            @ agent_name agent @ '', version: '' @ agent_version agent @ '')'')] \<and>
              status (provisioner ld pc create_version env_file (Inr prompt) e) = Exit 0) \<and>
           (\<forall>ex.
              create_version name
                \<lparr>model = (case getenv e' ''MODEL_NAME'' of None \<Rightarrow> ''gpt-4.1'' | Some v \<Rightarrow> v),
                 instructions = strip prompt\<rparr> = Inl ex \<longrightarrow>
              stdout (provisioner ld pc create_version env_file (Inr prompt) e) = [] \<and>
              status (provisioner ld pc create_version env_file (Inr prompt) e) = Uncaught ex))"
  proof
    assume pc: "pc endpoint = None"
    have "truthy (getenv e' ''AGENT_NAME'')"
      using assms(1) by (rule load_config_ok) (simp add: provisioner_required_vars_def)
    then obtain name where nm: "e' ''AGENT_NAME'' = Some name"
      by (auto simp: truthy_def getenv_def split: option.splits)
    have md: "getenv_default e' ''MODEL_NAME'' default_model =
        (case getenv e' ''MODEL_NAME'' of None \<Rightarrow> ''gpt-4.1'' | Some v \<Rightarrow> v)"
      by (simp add: getenv_default_def getenv_def default_model_def)
    note run = provisioner_run [where ld = ld and env_file = env_file and e = e and e' = e'
        and endpoint = endpoint and pc = pc and name = name and cv = create_version
        and prompt = prompt, OF assms pc nm, unfolded md]
    have "getenv e' ''AGENT_NAME'' = Some name"
      using nm by (simp add: getenv_def)
    moreover have "remote_calls (provisioner ld pc create_version env_file (Inr prompt) e) =
             [Create_version name
                \<lparr>model = (case getenv e' ''MODEL_NAME'' of None \<Rightarrow> ''gpt-4.1'' | Some v \<Rightarrow> v),
                 instructions = strip prompt\<rparr>]"
      unfolding run by (simp split: sum.splits)
    moreover have "\<forall>agent.
              create_version name
                \<lparr>model = (case getenv e' ''MODEL_NAME'' of None \<Rightarrow> ''gpt-4.1'' | Some v \<Rightarrow> v),
                 instructions = strip prompt\<rparr> = Inr agent \<longrightarrow>
              stdout (provisioner ld pc create_version env_file (Inr prompt) e) =
                [Printed (''Agent created (id: '' @ agent_id agent @ '', name: ''
                            @ agent_name agent @ '', version: '' @ agent_version agent @ '')'')] \<and>
              status (provisioner ld pc create_version env_file (Inr prompt) e) = Exit 0"
      unfolding run by (simp add: created_message_def)
    moreover have "\<forall>ex.
              create_version name
                \<lparr>model = (case getenv e' ''MODEL_NAME'' of None \<Rightarrow> ''gpt-4.1'' | Some v \<Rightarrow> v),
                 instructions = strip prompt\<rparr> = Inl ex \<longrightarrow>
              stdout (provisioner ld pc create_version env_file (Inr prompt) e) = [] \<and>
              status (provisioner ld pc create_version env_file (Inr prompt) e) = Uncaught ex"
      unfolding run by simp
    ultimately show "\<exists>name. getenv e' ''AGENT_NAME'' = Some name \<and>
           remote_calls (provisioner ld pc create_version env_file (Inr prompt) e) =
             [Create_version name
                \<lparr>model = (case getenv e' ''MODEL_NAME'' of None \<Rightarrow> ''gpt-4.1'' | Some v \<Rightarrow> v),
                 instructions = strip prompt\<rparr>] \<and>
           (\<forall>agent.
              create_version name
                \<lparr>model = (case getenv e' ''MODEL_NAME'' of None \<Rightarrow> ''gpt-4.1'' | Some v \<Rightarrow> v),
                 instructions = strip prompt\<rparr> = Inr agent \<longrightarrow>
              stdout (provisioner ld pc create_version env_file (Inr prompt) e) =
                [Printed (''Agent created (id: '' @ agent_id agent @ '', name: ''
                            @ agent_name agent @ '', version: '' @ agent_version agent @ '')'')] \<and>
              status (provisioner ld pc create_version env_file (Inr prompt) e) = Exit 0) \<and>
           (\<forall>ex.
              create_version name
                \<lparr>model = (case getenv e' ''MODEL_NAME'' of None \<Rightarrow> ''gpt-4.1'' | Some v \<Rightarrow> v),
                 instructions = strip prompt\<rparr> = Inl ex \<longrightarrow>
              stdout (provisioner ld pc create_version env_file (Inr prompt) e) = [] \<and>
              status (provisioner ld pc create_version env_file (Inr prompt) e) = Uncaught ex)"
      by blast
  qed
next
  show "pc endpoint = Some ex \<longrightarrow>
        provisioner ld pc create_version env_file (Inr prompt) e = aborted ex"
    using provisioner_no_client [OF assms] by blast
next
  show "provisioner ld pc create_version env_file (Inl ex) e = aborted ex"
    using assms(1) by (rule provisioner_no_prompt)
next
  show "remote_calls (aborted ex) = []" by (simp add: aborted_def)
next
  show "status (aborted ex) = Uncaught ex" by (simp add: aborted_def)
next
  show "\<exists>a b. prompt = a @ strip prompt @ b \<and> (\<forall>c \<in> set a. isspace c) \<and> (\<forall>c \<in> set b. isspace c)"
    by (rule strip_decomposition)
next
  show "strip prompt \<noteq> [] \<longrightarrow> \<not> isspace (hd (strip prompt)) \<and> \<not> isspace (last (strip prompt))"
    using strip_ends by blast
next
  show "\<not> truthy (getenv env ''MODEL_DEPLOYMENT'') \<and>
      \<not> truthy (getenv env ''AZURE_OPENAI_DEPLOYMENT'') \<and>
      \<not> truthy (getenv env ''MODEL_NAME'') \<longrightarrow> model_name env d = model d"
    by (auto simp: model_name_def truthy_def or_else_def split: option.splits)
qed

theorem provisioner_creates_one_version_witness:
  "provisioner load_nothing constructed sample_create_version ''/repo/.env''
       (Inr ([CHR 0x0A] @ ''Guide hikers. '' @ [CHR 0x0A])) sample_env =
     \<lparr>remote_calls =
        [Create_version ''trail-guide'' \<lparr>model = ''gpt-4.1'', instructions = ''Guide hikers.''\<rparr>],
      stdout = [Printed ''Agent created (id: trail-guide:1, name: trail-guide, version: 1)''],
      status = Exit 0, client_closed = False\<rparr>"
proof -
  let ?p = "[CHR 0x0A] @ ''Guide hikers. '' @ [CHR 0x0A]"
  let ?r = "provisioner load_nothing constructed sample_create_version ''/repo/.env'' (Inr ?p) sample_env"
  have st: "strip ?p = ''Guide hikers.''"
    by (simp add: strip_def isspace_def)
  have ep: "sample_env ''AZURE_AI_PROJECT_ENDPOINT'' = Some ''https://project''"
    by (simp add: sample_env_def)
  have pc: "constructed ''https://project'' = None"
    by (simp add: constructed_def)
  have md: "getenv sample_env ''MODEL_NAME'' = None" "getenv sample_env ''AGENT_NAME'' = Some ''trail-guide''"
    by (simp_all add: sample_env_def getenv_def)
  have cv: "sample_create_version ''trail-guide'' \<lparr>model = ''gpt-4.1'', instructions = ''Guide hikers.''\<rparr> =
      Inr \<lparr>agent_id = ''trail-guide:1'', agent_name = ''trail-guide'', agent_version = ''1''\<rparr>"
    by (simp add: sample_create_version_def)
  from provisioner_creates_one_version [OF sample_config(1) ep, where pc = constructed
      and create_version = sample_create_version and prompt = ?p and env = sample_env
      and d = "\<lparr>model = ''gpt-4.1'', instructions = []\<rparr>" and ex = KeyboardInterrupt] pc
  have "remote_calls ?r =
        [Create_version ''trail-guide'' \<lparr>model = ''gpt-4.1'', instructions = ''Guide hikers.''\<rparr>] \<and>
      stdout ?r = [Printed ''Agent created (id: trail-guide:1, name: trail-guide, version: 1)''] \<and>
      status ?r = Exit 0"
    unfolding st md using cv by auto
  moreover have "client_closed ?r = False"
    using provisioner_run [where ld = load_nothing and env_file = "''/repo/.env''"
        and e = sample_env and e' = sample_env and endpoint = "''https://project''"
        and pc = constructed and name = "''trail-guide''" and cv = sample_create_version
        and prompt = ?p, OF sample_config(1) ep pc]
    by (simp add: sample_env_def split: sum.splits)
  ultimately show ?thesis
    by (intro run.equality) simp_all
qed

section \<open>Configuration errors\<close>

lemma load_config_unreadable:
  "\<forall>enc \<in> set encodings. is_decode_error (ld env_file enc e) \<Longrightarrow>
   load_config ld req env_file e = Inl (RuntimeError (unreadable_message env_file))"
  by (simp add: load_config_def load_env_all_decode_errors)

lemma load_config_raises:
  assumes "encodings = pre @ enc # post"
    and "\<forall>x \<in> set pre. is_decode_error (ld env_file x e)"
    and "ld env_file enc e = Inl ex" and "\<not> is_decode_error (Inl ex)"
  shows "load_config ld req env_file e = Inl ex"
proof -
  have "try_encodings ld env_file e (pre @ enc # post) = Inl (Propagated ex)"
    using assms(2,3,4) by (rule try_encodings_propagates)
  then show ?thesis
    by (simp add: load_config_def load_env_with_fallbacks_def assms(1))
qed

lemma load_nothing_returns: "load_env_with_fallbacks load_nothing env_file e = Inr e"
  by (simp add: load_env_with_fallbacks_def encodings_def load_nothing_def)

text \<open>
  C8, as the claim states it, fails for a missing configuration file: the load then
  sets nothing and raises nothing, and with the required variables already in the
  process environment the chat client goes on to its remote calls and ends with exit
  code 0.
\<close>

theorem missing_file_is_not_fatal:
  "remote_calls (chat_client load_nothing sample_services ''/repo/.env'' sample_env
      [Line ''exit'']) = [Get_agent ''trail-guide''] \<and>
   status (chat_client load_nothing sample_services ''/repo/.env'' sample_env
      [Line ''exit'']) = Exit 0"
proof -
  have st: "strip ''exit'' = ''exit''"
    by (simp add: strip_def isspace_def)
  have lo: "lower ''exit'' \<in> set exit_words"
    by (simp add: lower_def lower_char_def exit_words_def Let_def)
  have t: "turn silent_chat m ''exit'' s = (Break, emit [Printed farewell] s)" for m s
    using lo st turn_exit [of "''exit''" silent_chat m s] by simp
  have "chat_client load_nothing sample_services ''/repo/.env'' sample_env [Line ''exit'']
      = interact_with_agent sample_services sample_env [Line ''exit'']"
    by (simp add: chat_client_def sample_config)
  also have "\<dots> = run_session silent_chat ''gpt-4.1'' [Line ''exit'']
      (start ''trail-guide''
         \<lparr>version = ''1'', defn = \<lparr>model = ''gpt-4.1'', instructions = ''Guide hikers.''\<rparr>\<rparr>
         ''gpt-4.1'')"
    by (simp add: interact_with_agent_def environ_def getenv_default_def sample_env_def
        sample_services_def constructed_def sample_agent_def model_name_def or_else_def
        getenv_def Let_def)
  finally show ?thesis
    by (simp add: run_session_def t start_def emit_def)
qed

text \<open>
  C8, amended. A configuration error is fatal before any remote call and is reported
  with the offending path or with the missing names. When the load raises an exception
  that names the path, as the error of the operating system for an unreadable file
  does, both entry points end with that exception unchanged. When every encoding
  attempt raises \<open>UnicodeDecodeError\<close>, they end with the \<open>RuntimeError\<close> that names
  the path. When a required variable is absent or empty after the load, they end with
  the \<open>RuntimeError\<close> that enumerates the missing names and gives the expected path.
  A missing file is no error of its own: the load returns the environment as it was,
  and the run ends in this way only if a required variable is missing from it.
\<close>

theorem detected_config_errors_are_fatal:
  "encodings = [None, Some ''utf-8-sig'', Some ''utf-16'', Some ''utf-16-le'', Some ''utf-16-be''] \<and>
   set (missing_vars req e') = {n \<in> set req. getenv e' n = None \<or> getenv e' n = Some []} \<and>
   (encodings = pre @ enc # post \<and> (\<forall>x \<in> set pre. is_decode_error (ld env_file x e)) \<and>
    ld env_file enc e = Inl ex \<and> \<not> is_decode_error (Inl ex) \<and> str_in env_file (str_of ex) \<longrightarrow>
      provisioner ld pc cv env_file pf e = aborted ex \<and>
      chat_client ld svc env_file e inputs = aborted ex \<and>
      (\<exists>r. status (provisioner ld pc cv env_file pf e) = Uncaught r \<and> str_in env_file (str_of r)) \<and>
      (\<exists>r. status (chat_client ld svc env_file e inputs) = Uncaught r \<and>
           str_in env_file (str_of r))) \<and>
   ((\<forall>enc \<in> set encodings. is_decode_error (ld env_file enc e)) \<longrightarrow>
      provisioner ld pc cv env_file pf e =
        aborted (RuntimeError (''Unable to read .env file at '' @ env_file
                                 @ ''. Please save it as UTF-8.'')) \<and>
      chat_client ld svc env_file e inputs =
        aborted (RuntimeError (''Unable to read .env file at '' @ env_file
                                 @ ''. Please save it as UTF-8.''))) \<and>
   (load_env_with_fallbacks ld env_file e = Inr e' \<and>
    missing_vars provisioner_required_vars e' \<noteq> [] \<longrightarrow>
      provisioner ld pc cv env_file pf e =
        aborted (RuntimeError (''Missing required environment variable(s): ''
          @ join '', '' (missing_vars provisioner_required_vars e')
          @ ''. Expected .env at: '' @ env_file))) \<and>
   (load_env_with_fallbacks ld env_file e = Inr e' \<and>
    missing_vars chat_required_vars e' \<noteq> [] \<longrightarrow>
      chat_client ld svc env_file e inputs =
        aborted (RuntimeError (''Missing required environment variable(s): ''
          @ join '', '' (missing_vars chat_required_vars e')
          @ ''. Expected .env at: '' @ env_file))) \<and>
   remote_calls (aborted ex) = [] \<and> status (aborted ex) = Uncaught ex \<and>
   load_env_with_fallbacks load_nothing env_file e = Inr e \<and>
   (missing_vars chat_required_vars e = [] \<longrightarrow>
      chat_client load_nothing svc env_file e inputs = interact_with_agent svc e inputs) \<and>
   (missing_vars provisioner_required_vars e \<noteq> [] \<longrightarrow>
      provisioner load_nothing pc cv env_file pf e =
        aborted (RuntimeError (''Missing required environment variable(s): ''
          @ join '', '' (missing_vars provisioner_required_vars e)
          @ ''. Expected .env at: '' @ env_file)))"
proof (intro conjI impI)
  show "encodings = [None, Some ''utf-8-sig'', Some ''utf-16'', Some ''utf-16-le'', Some ''utf-16-be'']"
    by (simp add: encodings_def)
  show "set (missing_vars req e') = {n \<in> set req. getenv e' n = None \<or> getenv e' n = Some []}"
    by (rule set_missing_vars)
next
  assume a: "encodings = pre @ enc # post \<and> (\<forall>x \<in> set pre. is_decode_error (ld env_file x e)) \<and>
    ld env_file enc e = Inl ex \<and> \<not> is_decode_error (Inl ex) \<and> str_in env_file (str_of ex)"
  then have lc: "load_config ld req env_file e = Inl ex" for req
    using load_config_raises [of pre enc post ld env_file e ex req] by blast
  show p: "provisioner ld pc cv env_file pf e = aborted ex"
    using lc by (rule provisioner_aborts)
  show c: "chat_client ld svc env_file e inputs = aborted ex"
    using lc by (rule chat_client_aborts)
  show "\<exists>r. status (provisioner ld pc cv env_file pf e) = Uncaught r \<and> str_in env_file (str_of r)"
    using a by (auto simp: p aborted_def)
  show "\<exists>r. status (chat_client ld svc env_file e inputs) = Uncaught r \<and> str_in env_file (str_of r)"
    using a by (auto simp: c aborted_def)
next
  assume a: "\<forall>enc \<in> set encodings. is_decode_error (ld env_file enc e)"
  have lc: "load_config ld req env_file e = Inl (RuntimeError (unreadable_message env_file))" for req
    using a by (rule load_config_unreadable)
  show "provisioner ld pc cv env_file pf e =
        aborted (RuntimeError (''Unable to read .env file at '' @ env_file
                                 @ ''. Please save it as UTF-8.''))"
    using provisioner_aborts [of ld env_file e _ pc cv pf] lc
    by (simp add: unreadable_message_def)
  show "chat_client ld svc env_file e inputs =
        aborted (RuntimeError (''Unable to read .env file at '' @ env_file
                                 @ ''. Please save it as UTF-8.''))"
    using chat_client_aborts [of ld env_file e _ svc inputs] lc
    by (simp add: unreadable_message_def)
next
  assume "load_env_with_fallbacks ld env_file e = Inr e' \<and>
    missing_vars provisioner_required_vars e' \<noteq> []"
  then have "load_config ld provisioner_required_vars env_file e =
      Inl (RuntimeError (missing_message (missing_vars provisioner_required_vars e') env_file))"
    by (simp add: load_config_missing)
  then show "provisioner ld pc cv env_file pf e =
        aborted (RuntimeError (''Missing required environment variable(s): ''
          @ join '', '' (missing_vars provisioner_required_vars e')
          @ ''. Expected .env at: '' @ env_file))"
    using provisioner_aborts by (simp add: missing_message_def)
next
  assume "load_env_with_fallbacks ld env_file e = Inr e' \<and>
    missing_vars chat_required_vars e' \<noteq> []"
  then have "load_config ld chat_required_vars env_file e =
      Inl (RuntimeError (missing_message (missing_vars chat_required_vars e') env_file))"
    by (simp add: load_config_missing)
  then show "chat_client ld svc env_file e inputs =
        aborted (RuntimeError (''Missing required environment variable(s): ''
          @ join '', '' (missing_vars chat_required_vars e')
          @ ''. Expected .env at: '' @ env_file))"
    using chat_client_aborts by (simp add: missing_message_def)
next
  show "remote_calls (aborted ex) = []" by (simp add: aborted_def)
  show "status (aborted ex) = Uncaught ex" by (simp add: aborted_def)
  show "load_env_with_fallbacks load_nothing env_file e = Inr e" by (rule load_nothing_returns)
next
  assume "missing_vars chat_required_vars e = []"
  then show "chat_client load_nothing svc env_file e inputs = interact_with_agent svc e inputs"
    by (simp add: chat_client_def load_config_def load_nothing_returns)
next
  assume "missing_vars provisioner_required_vars e \<noteq> []"
  then have "load_config load_nothing provisioner_required_vars env_file e =
      Inl (RuntimeError (missing_message (missing_vars provisioner_required_vars e) env_file))"
    using load_nothing_returns by (simp add: load_config_missing)
  then show "provisioner load_nothing pc cv env_file pf e =
        aborted (RuntimeError (''Missing required environment variable(s): ''
          @ join '', '' (missing_vars provisioner_required_vars e)
          @ ''. Expected .env at: '' @ env_file))"
    using provisioner_aborts by (simp add: missing_message_def)
qed

theorem detected_config_errors_are_fatal_witness:
  "chat_client unreadable_file sample_services ''/repo/.env'' sample_env [] =
     aborted (OSError (''[Errno 13] Permission denied: '' @ [CHR 0x27] @ ''/repo/.env''
                         @ [CHR 0x27])) \<and>
   chat_client undecodable sample_services ''/repo/.env'' sample_env [] =
     aborted (RuntimeError ''Unable to read .env file at /repo/.env. Please save it as UTF-8.'') \<and>
   chat_client load_nothing sample_services ''/repo/.env''
       (Map.empty(''AGENT_NAME'' \<mapsto> ''trail-guide'')) [] =
     aborted (RuntimeError
       ''Missing required environment variable(s): AZURE_AI_PROJECT_ENDPOINT, AZURE_OPENAI_ENDPOINT. Expected .env at: /repo/.env'') \<and>
   provisioner load_nothing constructed sample_create_version ''/repo/.env'' (Inr ''Guide.'')
       (Map.empty(''AZURE_AI_PROJECT_ENDPOINT'' \<mapsto> ''https://project'')) =
     aborted (RuntimeError
       ''Missing required environment variable(s): AGENT_NAME. Expected .env at: /repo/.env'') \<and>
   chat_client load_nothing sample_services ''/repo/.env'' sample_env [Line ''exit''] =
     interact_with_agent sample_services sample_env [Line ''exit''] \<and>
   remote_calls (aborted (RuntimeError
     ''Unable to read .env file at /repo/.env. Please save it as UTF-8.'')) = []"
proof -
  let ?p = "''/repo/.env''"
  let ?os = "OSError (''[Errno 13] Permission denied: '' @ [CHR 0x27] @ ''/repo/.env'' @ [CHR 0x27])"
  let ?e1 = "Map.empty(''AGENT_NAME'' \<mapsto> ''trail-guide'')"
  let ?e2 = "Map.empty(''AZURE_AI_PROJECT_ENDPOINT'' \<mapsto> ''https://project'')"
  have sp: "encodings = [] @ None # [Some ''utf-8-sig'', Some ''utf-16'', Some ''utf-16-le'', Some ''utf-16-be'']"
    by (simp add: encodings_def)
  have u1: "unreadable_file ?p None sample_env = Inl ?os"
    by (simp add: unreadable_file_def)
  have u2: "\<not> is_decode_error (Inl ?os)"
    by simp
  have u3: "str_in ?p (str_of ?os)"
    by simp
  have 1: "chat_client unreadable_file sample_services ?p sample_env [] = aborted ?os"
    using detected_config_errors_are_fatal [where ld = unreadable_file and env_file = ?p
        and e = sample_env and e' = sample_env and pre = "[]" and enc = None
        and post = "[Some ''utf-8-sig'', Some ''utf-16'', Some ''utf-16-le'', Some ''utf-16-be'']"
        and ex = ?os and pc = constructed and cv = sample_create_version and pf = "Inr []"
        and svc = sample_services and inputs = "[]"]
      sp u1 u2 u3
    by simp
  have every: "\<forall>enc \<in> set encodings. is_decode_error (undecodable ?p enc sample_env)"
    by (simp add: undecodable_def)
  have 2: "chat_client undecodable sample_services ?p sample_env [] =
     aborted (RuntimeError ''Unable to read .env file at /repo/.env. Please save it as UTF-8.'')"
    using detected_config_errors_are_fatal [where ld = undecodable and env_file = ?p
        and e = sample_env and e' = sample_env and pre = "[]" and enc = None and post = "[]"
        and ex = KeyboardInterrupt and pc = constructed and cv = sample_create_version
        and pf = "Inr []" and svc = sample_services and inputs = "[]"]
      every
    by simp
  have m1: "missing_vars chat_required_vars ?e1 = [''AZURE_AI_PROJECT_ENDPOINT'', ''AZURE_OPENAI_ENDPOINT'']"
    by (simp add: missing_vars_def chat_required_vars_def truthy_def getenv_def)
  have m2: "missing_vars provisioner_required_vars ?e2 = [''AGENT_NAME'']"
    by (simp add: missing_vars_def provisioner_required_vars_def truthy_def getenv_def)
  have 3: "chat_client load_nothing sample_services ?p ?e1 [] =
     aborted (RuntimeError
       ''Missing required environment variable(s): AZURE_AI_PROJECT_ENDPOINT, AZURE_OPENAI_ENDPOINT. Expected .env at: /repo/.env'')"
    using detected_config_errors_are_fatal [where ld = load_nothing and env_file = ?p
        and e = ?e1 and e' = ?e1 and pre = "[]" and enc = None and post = "[]"
        and ex = KeyboardInterrupt and pc = constructed and cv = sample_create_version
        and pf = "Inr []" and svc = sample_services and inputs = "[]"]
      load_nothing_returns [of ?p ?e1]
    by (simp add: m1)
  have 4: "provisioner load_nothing constructed sample_create_version ?p (Inr ''Guide.'') ?e2 =
     aborted (RuntimeError
       ''Missing required environment variable(s): AGENT_NAME. Expected .env at: /repo/.env'')"
    using detected_config_errors_are_fatal [where ld = load_nothing and env_file = ?p
        and e = ?e2 and e' = ?e2 and pre = "[]" and enc = None and post = "[]"
        and ex = KeyboardInterrupt and pc = constructed and cv = sample_create_version
        and pf = "Inr ''Guide.''" and svc = sample_services and inputs = "[]"]
    by (simp add: m2)
  have m3: "missing_vars chat_required_vars sample_env = []"
    by (simp add: missing_vars_def chat_required_vars_def sample_env_def truthy_def getenv_def)
  have 5: "chat_client load_nothing sample_services ?p sample_env [Line ''exit''] =
     interact_with_agent sample_services sample_env [Line ''exit'']"
    using detected_config_errors_are_fatal [where ld = load_nothing and env_file = ?p
        and e = sample_env and e' = sample_env and pre = "[]" and enc = None and post = "[]"
        and ex = KeyboardInterrupt and pc = constructed and cv = sample_create_version
        and pf = "Inr []" and svc = sample_services and inputs = "[Line ''exit'']"]
      m3
    by simp
  have 6: "remote_calls (aborted (RuntimeError
     ''Unable to read .env file at /repo/.env. Please save it as UTF-8.'')) = []"
    by (simp add: aborted_def)
  from 1 2 3 4 5 6 show ?thesis by blast
qed

end
